theory Spec2Isabelle
  imports
    Complex_Main
    "HOL-Library.Multiset"
    "HOL-Library.Char_ord"
    "HOL-Library.List_Lexorder"
    "HOL-Library.Product_Lexorder"
begin

section \<open>Data frames\<close>

text \<open>
  The what-if simulator and the event catalog work on pandas data frames. A frame is
  modelled by its column labels and its rows. A cell of a row is addressed by the column
  label; a column of strings (vehicle ids, event ids, event types, roles) is read through
  \<open>strs\<close>, a column of floats (lap times, time losses, positions) through \<open>floats\<close>.
  In both, \<open>None\<close> is pandas' missing value (NaN). A float64 is modelled by a real number,
  so rounding and the infinities are outside the model.
\<close>

record row =
  strs :: "string \<rightharpoonup> string"
  floats :: "string \<rightharpoonup> real"

record frame =
  columns :: "string list"
  rows :: "row list"

text \<open>\<open>df.empty\<close>: an axis of length 0.\<close>

definition empty :: "frame \<Rightarrow> bool" where
  "empty df \<longleftrightarrow> rows df = [] \<or> columns df = []"

text \<open>\<open>df[df[c] == v]\<close> for a string \<open>v\<close>: a missing cell is equal to nothing.\<close>

definition select_eq :: "frame \<Rightarrow> string \<Rightarrow> string \<Rightarrow> frame" where
  "select_eq df c v = df\<lparr>rows := filter (\<lambda>r. strs r c = Some v) (rows df)\<rparr>"

datatype error = KeyError | IndexError | ValueError

section \<open>what\_if.py: the removal filter\<close>

definition filter_events_for_removal ::
  "frame \<Rightarrow> string option \<Rightarrow> string option \<Rightarrow> string option \<Rightarrow> frame" where
  "filter_events_for_removal event_detection vehicle_id event_type role =
    (let df = event_detection;
         df = (case vehicle_id of
                 Some v \<Rightarrow> if ''vehicle_id'' \<in> set (columns df) then select_eq df ''vehicle_id'' v else df
               | None \<Rightarrow> df);
         df = (case event_type of
                 Some t \<Rightarrow> if ''event_type'' \<in> set (columns df) then select_eq df ''event_type'' t else df
               | None \<Rightarrow> df);
         df = (case role of
                 Some ro \<Rightarrow> if ''role'' \<in> set (columns df) then select_eq df ''role'' ro else df
               | None \<Rightarrow> df)
     in df)"

section \<open>what\_if.py: the simulator\<close>

text \<open>
  \<open>df.groupby(k)[c].sum()\<close>: one entry per value of the key column, the keys in ascending
  order (rows whose key is missing are dropped), the missing values of \<open>c\<close> skipped by the
  sum.
\<close>

definition group_keys :: "string \<Rightarrow> frame \<Rightarrow> string list" where
  "group_keys k df = sort (remdups (List.map_filter (\<lambda>r. strs r k) (rows df)))"

definition nansum :: "real option list \<Rightarrow> real" where
  "nansum xs = sum_list (map (\<lambda>x. case x of None \<Rightarrow> 0 | Some v \<Rightarrow> v) xs)"

definition group_sum :: "string \<Rightarrow> string \<Rightarrow> frame \<Rightarrow> string \<Rightarrow> real" where
  "group_sum k c df v = nansum (map (\<lambda>r. floats r c) (filter (\<lambda>r. strs r k = Some v) (rows df)))"

definition groupby_sum :: "string \<Rightarrow> string \<Rightarrow> frame \<Rightarrow> (string \<times> real) list" where
  "groupby_sum k c df = map (\<lambda>v. (v, group_sum k c df v)) (group_keys k df)"

text \<open>
  \<open>left.merge(right, on=keys, how="inner")\<close>: every left row, in order, once for each right
  row that agrees with it on all the key columns (pandas matches a missing key with a missing
  key). The merged row has the cells of the left row and, for the columns only the right
  frame has, the cells of the right row. With an empty list of keys pandas raises
  \<open>IndexError\<close>.
\<close>

definition rows_agree :: "string list \<Rightarrow> row \<Rightarrow> row \<Rightarrow> bool" where
  "rows_agree on l r \<longleftrightarrow> (\<forall>c \<in> set on. strs l c = strs r c \<and> floats l c = floats r c)"

definition join_rows :: "string list \<Rightarrow> row \<Rightarrow> row \<Rightarrow> row" where
  "join_rows left_columns l r =
     \<lparr>strs = (\<lambda>c. if c \<in> set left_columns then strs l c else strs r c),
      floats = (\<lambda>c. if c \<in> set left_columns then floats l c else floats r c)\<rparr>"

definition merge_inner :: "frame \<Rightarrow> frame \<Rightarrow> string list \<Rightarrow> error + frame" where
  "merge_inner left right on =
     (if on = [] then Inl IndexError
      else if \<not> (set on \<subseteq> set (columns left) \<and> set on \<subseteq> set (columns right)) then Inl KeyError
      else Inr \<lparr>columns = columns left @ filter (\<lambda>c. c \<notin> set (columns left)) (columns right),
                rows = concat (map (\<lambda>l. map (join_rows (columns left) l)
                                           (filter (rows_agree on l) (rows right)))
                                  (rows left))\<rparr>)"

text \<open>The rows of the result, before and after the ranking.\<close>

record totals_row =
  vehicle_id :: string
  real_total_time :: real
  total_event_loss :: real
  adj_total_time :: real

record sim_row = totals_row +
  adj_position :: nat
  real_position :: "real option"
  position_change :: "real option"

text \<open>A result is \<open>pd.DataFrame()\<close>, a frame without columns, or a frame of ranked rows.\<close>

datatype sim_frame = EmptyFrame | SimFrame "sim_row list"

text \<open>Lines 40 to 68: the time each vehicle lost in the events that are to be removed.\<close>

definition events_kept :: "frame \<Rightarrow> frame option \<Rightarrow> error + frame" where
  "events_kept event_detection events_to_remove =
     (let ev = (if \<not> empty event_detection then event_detection else \<lparr>columns = [], rows = []\<rparr>)
      in case events_to_remove of
           None \<Rightarrow> Inr ev
         | Some etr \<Rightarrow>
             if empty ev then Inr ev
             else if ''event_id'' \<in> set (columns etr)
               then merge_inner ev (etr\<lparr>columns := [''event_id'']\<rparr>) [''event_id'']
               else merge_inner ev etr (filter (\<lambda>c. c \<in> set (columns etr)) (remdups (columns ev))))"

text \<open>
  Lines 59 to 68. The losses are a series named \<open>total_event_loss\<close> when there are events
  with a \<open>vehicle_id\<close> column (\<open>Some\<close>); otherwise line 68 makes an empty series and gives it
  no name (\<open>None\<close>).
\<close>

definition event_losses :: "frame \<Rightarrow> (string \<times> real) list option" where
  "event_losses ev =
     (if \<not> empty ev \<and> ''vehicle_id'' \<in> set (columns ev) then
        (if ''time_loss_estimate'' \<in> set (columns ev)
           then Some (groupby_sum ''vehicle_id'' ''time_loss_estimate'' ev)
         else if ''time_loss'' \<in> set (columns ev)
           then Some (groupby_sum ''vehicle_id'' ''time_loss'' ev)
         else Some [])
      else None)"

text \<open>
  Lines 71 and 72: the left join of the totals with the losses on the vehicle id, a missing
  loss filled with 0. \<open>DataFrame.join\<close> refuses a series without a name with a
  \<open>ValueError\<close>.
\<close>

definition totals_frame ::
  "(string \<times> real) list \<Rightarrow> (string \<times> real) list option \<Rightarrow> error + totals_row list" where
  "totals_frame totals event_loss =
     (case event_loss of
        None \<Rightarrow> Inl ValueError
      | Some losses \<Rightarrow>
          Inr (map (\<lambda>(v, t).
                     let loss = (case map_of losses v of None \<Rightarrow> 0 | Some x \<Rightarrow> x)
                     in \<lparr>vehicle_id = v, real_total_time = t, total_event_loss = loss,
                         adj_total_time = t - loss\<rparr>)
                   totals))"

text \<open>
  Lines 78 to 90: the real positions. The column labels of the results table are the ones
  line 81 leaves, stripped and in upper case. A later row of the table overrides an earlier
  one for the same vehicle.
\<close>

definition pos_map :: "row list \<Rightarrow> (string \<rightharpoonup> real option)" where
  "pos_map rs = fold (\<lambda>r m. case strs r ''VEHICLE'' of None \<Rightarrow> m
                                 | Some v \<Rightarrow> m(v \<mapsto> floats r ''POSITION'')) rs Map.empty"

definition real_position_of :: "frame option \<Rightarrow> string \<Rightarrow> real option" where
  "real_position_of results_df v =
     (case results_df of
        None \<Rightarrow> None
      | Some res \<Rightarrow>
          if empty res then None
          else if ''VEHICLE'' \<in> set (columns res) \<and> ''POSITION'' \<in> set (columns res)
            then (case pos_map (rows res) v of None \<Rightarrow> None | Some p \<Rightarrow> p)
            else None)"

text \<open>Lines 74 to 76 and 93: the rows in sorted order get the positions 1, 2, ...\<close>

fun rank_rows :: "frame option \<Rightarrow> nat \<Rightarrow> totals_row list \<Rightarrow> sim_row list" where
  "rank_rows results_df n [] = []"
| "rank_rows results_df n (r # rs) =
     (let rp = real_position_of results_df (vehicle_id r)
      in \<lparr>vehicle_id = vehicle_id r, real_total_time = real_total_time r,
          total_event_loss = total_event_loss r, adj_total_time = adj_total_time r,
          adj_position = n, real_position = rp,
          position_change = map_option (\<lambda>p. p - real n) rp\<rparr>)
     # rank_rows results_df (Suc n) rs"

text \<open>
  \<open>df.sort_values("adj_total_time")\<close> sorts on a single column with pandas' default
  algorithm, numpy's quicksort, which returns the rows in ascending order of the column but
  does not promise an order among rows with equal values. The sort routine is therefore an
  argument of the model, \<open>sort_values\<close>; what is proved of the simulator is proved for every
  routine that sorts.
\<close>

definition simulate_no_events ::
  "(totals_row list \<Rightarrow> totals_row list) \<Rightarrow> frame \<Rightarrow> frame \<Rightarrow> frame option \<Rightarrow> frame option
     \<Rightarrow> error + sim_frame" where
  "simulate_no_events sort_values lap_times event_detection events_to_remove results_df =
     (if ''vehicle_id'' \<in> set (columns lap_times) \<and> ''lap_time_seconds'' \<in> set (columns lap_times)
      then
        (let totals = groupby_sum ''vehicle_id'' ''lap_time_seconds'' lap_times
         in case events_kept event_detection events_to_remove of
              Inl e \<Rightarrow> Inl e
            | Inr ev \<Rightarrow>
                (case totals_frame totals (event_losses ev) of
                   Inl e \<Rightarrow> Inl e
                 | Inr df \<Rightarrow> Inr (SimFrame (rank_rows results_df 1 (sort_values df)))))
      else Inr EmptyFrame)"

text \<open>What a sort routine on the adjusted time does; and when it is stable.\<close>

definition sorts_by_adj_total_time :: "(totals_row list \<Rightarrow> totals_row list) \<Rightarrow> bool" where
  "sorts_by_adj_total_time srt \<longleftrightarrow>
     (\<forall>xs. mset (srt xs) = mset xs \<and> sorted (map adj_total_time (srt xs)))"

definition keeps_ties_in_place :: "(totals_row list \<Rightarrow> totals_row list) \<Rightarrow> bool" where
  "keeps_ties_in_place srt \<longleftrightarrow>
     (\<forall>xs k. filter (\<lambda>r. adj_total_time r = k) (srt xs) = filter (\<lambda>r. adj_total_time r = k) xs)"

section \<open>what\_if.py: the scenario comparator\<close>

record scenario_entry =
  total_time :: real
  position :: int
  time_gain :: real

text \<open>
  Line 257: the first row of the vehicle. A frame without columns has no \<open>vehicle_id\<close>
  column (\<open>KeyError\<close>), a frame without a row of the vehicle has no row 0 (\<open>IndexError\<close>).
\<close>

definition scenario_row :: "sim_frame \<Rightarrow> string \<Rightarrow> error + scenario_entry" where
  "scenario_row results_df driver_id =
     (case results_df of
        EmptyFrame \<Rightarrow> Inl KeyError
      | SimFrame rs \<Rightarrow>
          (case filter (\<lambda>r. vehicle_id r = driver_id) rs of
             [] \<Rightarrow> Inl IndexError
           | r # _ \<Rightarrow> Inr \<lparr>total_time = adj_total_time r, position = int (adj_position r),
                           time_gain = total_event_loss r\<rparr>))"

fun compare_loop ::
  "(string \<times> sim_frame) list \<Rightarrow> string \<Rightarrow> (string \<rightharpoonup> scenario_entry)
     \<Rightarrow> error + (string \<rightharpoonup> scenario_entry)" where
  "compare_loop [] driver_id comparison = Inr comparison"
| "compare_loop ((scenario_name, results_df) # rest) driver_id comparison =
     (case scenario_row results_df driver_id of
        Inr entry \<Rightarrow> compare_loop rest driver_id (comparison(scenario_name \<mapsto> entry))
      | Inl e \<Rightarrow>
          if e = IndexError \<or> e = KeyError \<or> e = ValueError
          then compare_loop rest driver_id comparison
          else Inl e)"

record comparison =
  cmp_driver_id :: string
  cmp_scenarios :: "string \<rightharpoonup> scenario_entry"

text \<open>The scenarios are the items of the dictionary, in its order.\<close>

definition compare_scenarios ::
  "(string \<times> sim_frame) list \<Rightarrow> string \<Rightarrow> error + comparison" where
  "compare_scenarios scenarios driver_id =
     (case compare_loop scenarios driver_id Map.empty of
        Inl e \<Rightarrow> Inl e
      | Inr comparison \<Rightarrow> Inr \<lparr>cmp_driver_id = driver_id, cmp_scenarios = comparison\<rparr>)"

text \<open>A result includes a vehicle when one of its rows is the vehicle's.\<close>

definition includes_vehicle :: "sim_frame \<Rightarrow> string \<Rightarrow> bool" where
  "includes_vehicle df d =
     (case df of EmptyFrame \<Rightarrow> False | SimFrame rs \<Rightarrow> d \<in> set (map vehicle_id rs))"

text \<open>The events of a vehicle that are left after the removal filter, the ones whose loss it gets back.\<close>

definition removed_events_of :: "frame \<Rightarrow> frame option \<Rightarrow> string \<Rightarrow> row list" where
  "removed_events_of event_detection events_to_remove v =
     (case events_kept event_detection events_to_remove of
        Inl e \<Rightarrow> []
      | Inr ev \<Rightarrow> filter (\<lambda>e. strs e ''vehicle_id'' = Some v) (rows ev))"

section \<open>generate\_race\_facts.py: the key events\<close>

text \<open>
  A row handed to \<open>event_to_object\<close> is a series: the labels of the frame and the cells.
  \<open>ev_row.get(k)\<close> is missing when the frame has no column \<open>k\<close>.
\<close>

type_synonym series = "string list \<times> row"

definition get_str :: "series \<Rightarrow> string \<Rightarrow> string option" where
  "get_str ev_row k = (if k \<in> set (fst ev_row) then strs (snd ev_row) k else None)"

definition get_float :: "series \<Rightarrow> string \<Rightarrow> real option" where
  "get_float ev_row k = (if k \<in> set (fst ev_row) then floats (snd ev_row) k else None)"

text \<open>Python's \<open>int(x)\<close> of a float cuts the fraction off.\<close>

definition py_int :: "real \<Rightarrow> int" where
  "py_int x = (if 0 \<le> x then \<lfloor>x\<rfloor> else \<lceil>x\<rceil>)"

record event_object =
  obj_event_type :: "string option"
  obj_lap :: "int option"
  obj_timestamp :: "string option"
  obj_vehicle_id :: "string option"
  obj_severity :: "real option"
  obj_time_loss :: "real option"
  obj_metrics :: "string \<rightharpoonup> real"
  obj_description :: "string option"
  obj_role :: "string option"

definition event_to_object :: "series \<Rightarrow> event_object" where
  "event_to_object ev_row =
     \<lparr>obj_event_type = get_str ev_row ''event_type'',
      obj_lap = map_option py_int (get_float ev_row ''lap''),
      obj_timestamp = get_str ev_row ''timestamp'',
      obj_vehicle_id = get_str ev_row ''vehicle_id'',
      obj_severity = get_float ev_row ''severity_score'',
      obj_time_loss = get_float ev_row ''time_loss_estimate'',
      obj_metrics =
        (\<lambda>k. if k = ''speed_loss_kph'' then get_float ev_row ''speed_loss''
             else if k \<in> {''steering_correction_deg'', ''latG_spike'', ''rpm_drop''}
               then get_float ev_row k
             else None),
      obj_description = get_str ev_row ''description'',
      obj_role = None\<rparr>"

text \<open>
  \<open>events.sort_values(['severity_score', 'time_loss_estimate'], ascending=[False, False])\<close>.
  On several columns pandas sorts lexicographically with a stable sort; in a descending
  column the larger value comes first and a missing value comes last. The key of a cell puts
  it in that order: a number before a missing value, a larger number before a smaller.
\<close>

definition descending_key :: "real option \<Rightarrow> nat \<times> real" where
  "descending_key x = (case x of None \<Rightarrow> (1, 0) | Some v \<Rightarrow> (0, - v))"

definition severity_score_of :: "row \<Rightarrow> real option" where
  "severity_score_of r = floats r ''severity_score''"

definition time_loss_estimate_of :: "row \<Rightarrow> real option" where
  "time_loss_estimate_of r = floats r ''time_loss_estimate''"

definition sort_by_severity :: "row list \<Rightarrow> row list" where
  "sort_by_severity rs =
     sort_key (\<lambda>r. (descending_key (severity_score_of r), descending_key (time_loss_estimate_of r))) rs"

text \<open>Lines 196 to 210 of \<open>compose_race_facts\<close>.\<close>

definition race_key_events :: "frame \<Rightarrow> error + event_object list" where
  "race_key_events events =
     (if \<not> empty events then
        (if ''severity_score'' \<in> set (columns events) \<and> ''time_loss_estimate'' \<in> set (columns events)
         then
           (let evs_sorted = sort_by_severity (rows events);
                topn = take 6 evs_sorted
            in Inr (if length topn > 0
                    then (event_to_object (columns events, topn ! 0))\<lparr>obj_role := Some ''race_turning_point''\<rparr>
                         # map (\<lambda>i. (event_to_object (columns events, topn ! i))
                                        \<lparr>obj_role := Some ''major_mistake''\<rparr>)
                               [1..<min 4 (length topn)]
                    else []))
         else Inl KeyError)
      else Inr [])"

text \<open>
  The order the specification asks for, in its words: descending on severity, then on the
  time loss, a missing value after every number.
\<close>

definition at_least :: "real option \<Rightarrow> real option \<Rightarrow> bool" where
  "at_least x y = (case y of None \<Rightarrow> True | Some b \<Rightarrow> (case x of None \<Rightarrow> False | Some a \<Rightarrow> b \<le> a))"

definition not_behind :: "row \<Rightarrow> row \<Rightarrow> bool" where
  "not_behind a b \<longleftrightarrow>
     (at_least (severity_score_of a) (severity_score_of b) \<and> severity_score_of a \<noteq> severity_score_of b)
     \<or> (severity_score_of a = severity_score_of b
         \<and> at_least (time_loss_estimate_of a) (time_loss_estimate_of b))"

section \<open>event\_detection.py: floats with missing values\<close>

text \<open>
  A float that may be NaN is a \<open>real option\<close>. Arithmetic hands a NaN on, a comparison
  with a NaN is false.
\<close>

definition notna :: "real option \<Rightarrow> bool" where
  "notna x \<longleftrightarrow> x \<noteq> None"

definition fsub :: "real option \<Rightarrow> real option \<Rightarrow> real option" where
  "fsub a b = (case a of None \<Rightarrow> None | Some x \<Rightarrow> (case b of None \<Rightarrow> None | Some y \<Rightarrow> Some (x - y)))"

definition fadd :: "real option \<Rightarrow> real option \<Rightarrow> real option" where
  "fadd a b = (case a of None \<Rightarrow> None | Some x \<Rightarrow> (case b of None \<Rightarrow> None | Some y \<Rightarrow> Some (x + y)))"

definition fabs :: "real option \<Rightarrow> real option" where
  "fabs a = map_option abs a"

definition fdiv :: "real option \<Rightarrow> real \<Rightarrow> real option" where
  "fdiv a c = map_option (\<lambda>x. x / c) a"

definition fmul :: "real \<Rightarrow> real option \<Rightarrow> real option" where
  "fmul c a = map_option (\<lambda>x. c * x) a"

definition fless :: "real option \<Rightarrow> real option \<Rightarrow> bool" where
  "fless a b = (case a of None \<Rightarrow> False | Some x \<Rightarrow> (case b of None \<Rightarrow> False | Some y \<Rightarrow> x < y))"

text \<open>\<open>x > c\<close> and \<open>x < c\<close> for a constant \<open>c\<close>.\<close>

definition fgt :: "real option \<Rightarrow> real \<Rightarrow> bool" where
  "fgt a c = fless (Some c) a"

definition flt :: "real option \<Rightarrow> real \<Rightarrow> bool" where
  "flt a c = fless a (Some c)"

text \<open>\<open>(x or 0)\<close>: 0 for a zero, \<open>x\<close> otherwise; a NaN counts as true.\<close>

definition or0 :: "real option \<Rightarrow> real option" where
  "or0 a = (case a of None \<Rightarrow> None | Some x \<Rightarrow> if x = 0 then Some 0 else Some x)"

text \<open>\<open>np.nanmean\<close>: the mean of the values that are not NaN, NaN when there is none.\<close>

definition nanmean :: "real option list \<Rightarrow> real option" where
  "nanmean xs =
     (let vals = List.map_filter (\<lambda>x. x) xs
      in if vals = [] then None else Some (sum_list vals / real (length vals)))"

text \<open>
  Python's \<open>min(1.0, x)\<close> is \<open>x\<close> when \<open>x < 1.0\<close> and 1.0 otherwise, \<open>max(0.5, x)\<close> is \<open>x\<close>
  when \<open>x > 0.5\<close> and 0.5 otherwise; for a NaN both tests are false.
\<close>

definition min1 :: "real option \<Rightarrow> real option" where
  "min1 a = (if flt a 1 then a else Some 1)"

definition max_half :: "real option \<Rightarrow> real option" where
  "max_half a = (if fgt a 0.5 then a else Some 0.5)"

section \<open>event\_detection.py: the events\<close>

text \<open>
  The event id is the text \<open>{vid}_L{lap}_T{timestamp}\<close>, for a degradation
  \<open>{vid}_degradation_L{lap}_T{timestamp}\<close>; it is kept as its three parts. A timestamp is
  a number of seconds. The description, a fixed text for each type of event, is left out.
\<close>

datatype event_ident = Lap_ident string int real | Degradation_ident string int real

record event =
  event_id :: event_ident
  ev_vehicle_id :: "string option"
  ev_lap :: int
  ev_timestamp :: real
  event_type :: string
  severity_score :: "real option"
  time_loss_estimate :: "real option"
  steering_correction_deg :: "real option"
  brake_spike :: bool
  speed_loss :: "real option"
  latG_spike :: "real option"
  rpm_drop :: "real option"

text \<open>A vehicle id in a text; a missing one prints as \<open>nan\<close>.\<close>

definition vid_text :: "string option \<Rightarrow> string" where
  "vid_text v = (case v of None \<Rightarrow> ''nan'' | Some s \<Rightarrow> s)"

section \<open>event\_detection.py: the lap-level rules\<close>

text \<open>
  Line 14, \<open>per_lap.sort_values(['vehicle_id', 'lap'])\<close>: a stable lexicographic sort,
  ascending, missing values last.
\<close>

definition ascending_key :: "real option \<Rightarrow> nat \<times> real" where
  "ascending_key x = (case x of None \<Rightarrow> (1, 0) | Some v \<Rightarrow> (0, v))"

definition ascending_text_key :: "string option \<Rightarrow> nat \<times> string" where
  "ascending_text_key x = (case x of None \<Rightarrow> (1, []) | Some v \<Rightarrow> (0, v))"

definition sort_laps :: "row list \<Rightarrow> row list" where
  "sort_laps rs =
     sort_key (\<lambda>r. (ascending_text_key (strs r ''vehicle_id''), ascending_key (floats r ''lap''))) rs"

text \<open>
  Line 15, \<open>shift(1).rolling(3, min_periods=1).mean()\<close> within the laps of a vehicle: the
  mean of the values of the up to three laps before, the NaN skipped, as soon as one of them
  is a number. The laps before are the rows of the same vehicle that come earlier in the
  sorted table; a row without a vehicle id is in no group.
\<close>

definition rolling_mean3 :: "real option list \<Rightarrow> real option" where
  "rolling_mean3 earlier = nanmean (drop (length earlier - 3) earlier)"

definition laps_before :: "row list \<Rightarrow> row \<Rightarrow> row list" where
  "laps_before seen r =
     (case strs r ''vehicle_id'' of
        None \<Rightarrow> []
      | Some v \<Rightarrow> filter (\<lambda>p. strs p ''vehicle_id'' = Some v) seen)"

text \<open>
  Line 22: the timestamp of a lap is its \<open>end_time\<close> if the table has that column, else its
  \<open>start_time\<close>; \<open>None\<close> is pandas' \<open>NaT\<close>.
\<close>

definition lap_timestamp :: "string list \<Rightarrow> row \<Rightarrow> error + real option" where
  "lap_timestamp cols r =
     (if ''end_time'' \<in> set cols then Inr (floats r ''end_time'')
      else if ''start_time'' \<in> set cols then Inr (floats r ''start_time'')
      else Inl KeyError)"

text \<open>
  Lines 20 to 40, the body of the loop for one lap. \<open>int(row['lap'])\<close> raises on a NaN, and
  so does \<open>strftime\<close> on a \<open>NaT\<close>.
\<close>

definition pace_collapse :: "string list \<Rightarrow> row list \<Rightarrow> row \<Rightarrow> error + event list" where
  "pace_collapse cols earlier r =
     (case floats r ''lap'' of
        None \<Rightarrow> Inl ValueError
      | Some l \<Rightarrow>
         (case lap_timestamp cols r of
            Inl e \<Rightarrow> Inl e
          | Inr ts \<Rightarrow>
             (let rm_lap_time = rolling_mean3 (map (\<lambda>p. floats p ''lap_time_seconds'') earlier);
                  rm_latG = rolling_mean3 (map (\<lambda>p. floats p ''peak_lat_G'') earlier);
                  rm_longG = rolling_mean3 (map (\<lambda>p. floats p ''peak_long_G'') earlier)
              in if notna rm_lap_time
                    \<and> fless (fmul 1.015 rm_lap_time) (floats r ''lap_time_seconds'')
                    \<and> fless (floats r ''peak_lat_G'') (fsub rm_latG (Some 0.2))
                    \<and> fless (floats r ''peak_long_G'') (fsub rm_longG (Some 0.15))
                 then (case ts of
                         None \<Rightarrow> Inl ValueError
                       | Some t \<Rightarrow>
                           Inr [\<lparr>event_id = Lap_ident (vid_text (strs r ''vehicle_id'')) (py_int l) t,
                                 ev_vehicle_id = strs r ''vehicle_id'',
                                 ev_lap = py_int l,
                                 ev_timestamp = t,
                                 event_type = ''pace_collapse'',
                                 severity_score = Some 0.7,
                                 time_loss_estimate =
                                   max_half (fdiv (fsub (floats r ''lap_time_seconds'') rm_lap_time) 1),
                                 steering_correction_deg = None,
                                 brake_spike = False,
                                 speed_loss = None,
                                 latG_spike = None,
                                 rpm_drop = None\<rparr>])
                 else Inr [])))"

text \<open>The loop of line 19 over the sorted laps; \<open>seen\<close> are the laps already passed.\<close>

fun pace_loop :: "string list \<Rightarrow> row list \<Rightarrow> row list \<Rightarrow> error + event list" where
  "pace_loop cols seen [] = Inr []"
| "pace_loop cols seen (r # rest) =
     (case pace_collapse cols (laps_before seen r) r of
        Inl e \<Rightarrow> Inl e
      | Inr evs \<Rightarrow>
          (case pace_loop cols (seen @ [r]) rest of
             Inl e \<Rightarrow> Inl e
           | Inr later \<Rightarrow> Inr (evs @ later)))"

text \<open>
  Line 67: the differences of successive lap times, a missing one set to 0, the negative
  ones set to 0, and the mean of the last three.
\<close>

definition diffs :: "real option list \<Rightarrow> real option list" where
  "diffs ys = (case ys of [] \<Rightarrow> [] | y # rest \<Rightarrow> None # map (\<lambda>(a, b). fsub b a) (zip ys rest))"

definition fillna0 :: "real option \<Rightarrow> real option" where
  "fillna0 d = (case d of None \<Rightarrow> Some 0 | Some v \<Rightarrow> Some v)"

definition clip0 :: "real option \<Rightarrow> real option" where
  "clip0 d = map_option (max 0) d"

definition mean_positive_delta :: "real option list \<Rightarrow> real option" where
  "mean_positive_delta ys =
     (let ds = map (clip0 \<circ> fillna0) (diffs ys) in nanmean (drop (length ds - 3) ds))"

text \<open>
  Lines 44 to 75, the body of the loop for one vehicle. \<open>np.polyfit(x, y, 1)[0]\<close> is a
  numerical routine; it is an argument of the model, \<open>polyfit\<close>, whose result is the slope
  or, for a NaN or an exception, \<open>None\<close>.
\<close>

definition degradation ::
  "(real option list \<Rightarrow> real option list \<Rightarrow> real option) \<Rightarrow> string list \<Rightarrow> string \<Rightarrow> row list
     \<Rightarrow> error + event list" where
  "degradation polyfit cols vid g =
     (if length g < 3 then Inr []
      else
        (let x = map (\<lambda>r. floats r ''lap'') g;
             y = map (\<lambda>r. floats r ''lap_time_seconds'') g;
             slope = polyfit x y;
             lat_slope = polyfit x (map (\<lambda>r. floats r ''peak_lat_G'') g)
         in if notna slope \<and> notna lat_slope \<and> fgt slope 0.1 \<and> flt lat_slope (- 0.01)
            then
              (let last_row = last g
               in case lap_timestamp cols last_row of
                    Inl e \<Rightarrow> Inl e
                  | Inr ts \<Rightarrow>
                     (case floats last_row ''lap'' of
                        None \<Rightarrow> Inl ValueError
                      | Some l \<Rightarrow>
                         (case ts of
                            None \<Rightarrow> Inl ValueError
                          | Some t \<Rightarrow>
                              Inr [\<lparr>event_id = Degradation_ident vid (py_int l) t,
                                    ev_vehicle_id = Some vid,
                                    ev_lap = py_int l,
                                    ev_timestamp = t,
                                    event_type = ''degradation_phase'',
                                    severity_score = min1 (fdiv slope 0.5),
                                    time_loss_estimate = mean_positive_delta y,
                                    steering_correction_deg = None,
                                    brake_spike = False,
                                    speed_loss = None,
                                    latG_spike = None,
                                    rpm_drop = None\<rparr>])))
            else Inr []))"

fun degradation_loop ::
  "(real option list \<Rightarrow> real option list \<Rightarrow> real option) \<Rightarrow> string list \<Rightarrow> row list \<Rightarrow> string list
     \<Rightarrow> error + event list" where
  "degradation_loop polyfit cols per_lap [] = Inr []"
| "degradation_loop polyfit cols per_lap (vid # vids) =
     (case degradation polyfit cols vid (filter (\<lambda>r. strs r ''vehicle_id'' = Some vid) per_lap) of
        Inl e \<Rightarrow> Inl e
      | Inr evs \<Rightarrow>
          (case degradation_loop polyfit cols per_lap vids of
             Inl e \<Rightarrow> Inl e
           | Inr later \<Rightarrow> Inr (evs @ later)))"

text \<open>
  The table must have the columns that lines 14 and 15 select, or pandas raises \<open>KeyError\<close>.
\<close>

definition detect_lap_level_events ::
  "(real option list \<Rightarrow> real option list \<Rightarrow> real option) \<Rightarrow> frame \<Rightarrow> error + event list" where
  "detect_lap_level_events polyfit per_lap =
     (if \<not> set [''vehicle_id'', ''lap'', ''lap_time_seconds'', ''peak_lat_G'', ''peak_long_G'']
            \<subseteq> set (columns per_lap)
      then Inl KeyError
      else
        (let sorted_laps = sort_laps (rows per_lap)
         in case pace_loop (columns per_lap) [] sorted_laps of
              Inl e \<Rightarrow> Inl e
            | Inr events \<Rightarrow>
                (case degradation_loop polyfit (columns per_lap) sorted_laps
                        (group_keys ''vehicle_id'' \<lparr>columns = columns per_lap, rows = sorted_laps\<rparr>) of
                   Inl e \<Rightarrow> Inl e
                 | Inr later \<Rightarrow> Inr (events @ later))))"

section \<open>event\_detection.py: the sample-level rules\<close>

text \<open>
  A lap of telemetry is a frame indexed by time, one row a sample. Lines 97 to 99 add every
  channel the file does not have as a column of NaN, so a sample has all the channels, each a
  number or NaN.
\<close>

record sample =
  timestamp :: real
  speed :: "real option"
  Steering_Angle :: "real option"
  accy_can :: "real option"
  pbrake_f :: "real option"
  pbrake_r :: "real option"
  nmot :: "real option"
  gear :: "real option"

text \<open>
  The four rules, in the order in which lines 116 to 238 try them at a sample \<open>s0\<close>. The
  samples \<open>s1\<close>, \<open>s2\<close> and \<open>s3\<close> are the ones 1, 2 and 3 rows before it: the column
  \<open>speed_m3\<close> of the source is \<open>speed s3\<close>, \<open>pbr_m2\<close> is \<open>pbrake_f s2\<close>, and so on.
\<close>

definition lockup :: "string option \<Rightarrow> int \<Rightarrow> sample \<Rightarrow> sample \<Rightarrow> sample \<Rightarrow> event option" where
  "lockup vid lap s0 s2 s3 =
     (let cond_lock =
            (notna (pbrake_f s0) \<and> notna (pbrake_f s2)
             \<and> fgt (fsub (pbrake_f s0) (pbrake_f s2)) 10
             \<and> notna (speed s3) \<and> notna (speed s0) \<and> notna (accy_can s3) \<and> notna (accy_can s0)
             \<and> fgt (fsub (speed s3) (speed s0)) 6 \<and> fgt (fsub (accy_can s3) (accy_can s0)) 0.3)
      in if cond_lock then
           (let speed_loss = (if notna (speed s3) \<and> notna (speed s0)
                              then fsub (speed s3) (speed s0) else None);
                lat_spike = (if notna (accy_can s3) \<and> notna (accy_can s0)
                             then fsub (accy_can s3) (accy_can s0) else None);
                steer_corr = (if notna (Steering_Angle s0) \<and> notna (Steering_Angle s2)
                              then fabs (fsub (Steering_Angle s0) (Steering_Angle s2)) else None)
            in Some \<lparr>event_id = Lap_ident (vid_text vid) lap (timestamp s0),
                     ev_vehicle_id = vid,
                     ev_lap = lap,
                     ev_timestamp = timestamp s0,
                     event_type = ''lockup'',
                     severity_score =
                       min1 (nanmean [fdiv (fabs (fsub (pbrake_f s0) (pbrake_f s2))) 50,
                                      fdiv (or0 speed_loss) 10, fdiv (or0 lat_spike) 2]),
                     time_loss_estimate = (if notna speed_loss then fdiv speed_loss 9 else None),
                     steering_correction_deg = steer_corr,
                     brake_spike = True,
                     speed_loss = speed_loss,
                     latG_spike = lat_spike,
                     rpm_drop = None\<rparr>)
         else None)"

definition near_spin :: "string option \<Rightarrow> int \<Rightarrow> sample \<Rightarrow> sample \<Rightarrow> sample \<Rightarrow> event option" where
  "near_spin vid lap s0 s2 s3 =
     (let cond_spin =
            (notna (Steering_Angle s0) \<and> notna (Steering_Angle s2)
             \<and> fgt (fabs (fsub (Steering_Angle s0) (Steering_Angle s2))) 20
             \<and> notna (accy_can s0) \<and> notna (accy_can s3) \<and> notna (speed s3) \<and> notna (speed s0)
             \<and> fgt (fsub (accy_can s0) (accy_can s3)) 1.5 \<and> fgt (fsub (speed s3) (speed s0)) 4)
      in if cond_spin then
           (let speed_loss = fsub (speed s3) (speed s0);
                lat_spike = fsub (accy_can s0) (accy_can s3);
                steer_corr = fabs (fsub (Steering_Angle s0) (Steering_Angle s2))
            in Some \<lparr>event_id = Lap_ident (vid_text vid) lap (timestamp s0),
                     ev_vehicle_id = vid,
                     ev_lap = lap,
                     ev_timestamp = timestamp s0,
                     event_type = ''near_spin'',
                     severity_score =
                       min1 (fdiv (fadd (fadd (fdiv steer_corr 40) (fdiv lat_spike 3))
                                        (fdiv speed_loss 10)) 3),
                     time_loss_estimate = fdiv speed_loss 9,
                     steering_correction_deg = steer_corr,
                     brake_spike = False,
                     speed_loss = speed_loss,
                     latG_spike = lat_spike,
                     rpm_drop = None\<rparr>)
         else None)"

definition understeer :: "string option \<Rightarrow> int \<Rightarrow> sample \<Rightarrow> sample \<Rightarrow> event option" where
  "understeer vid lap s0 s3 =
     (let cond_under =
            (notna (Steering_Angle s0) \<and> notna (Steering_Angle s3)
             \<and> fgt (fsub (Steering_Angle s0) (Steering_Angle s3)) 8
             \<and> notna (accy_can s0) \<and> notna (accy_can s3)
             \<and> flt (fabs (fsub (accy_can s0) (accy_can s3))) 0.2
             \<and> fgt (fsub (speed s3) (speed s0)) 3)
      in if cond_under then
           (let speed_loss = fsub (speed s3) (speed s0);
                steer_corr = fabs (fsub (Steering_Angle s0) (Steering_Angle s3))
            in Some \<lparr>event_id = Lap_ident (vid_text vid) lap (timestamp s0),
                     ev_vehicle_id = vid,
                     ev_lap = lap,
                     ev_timestamp = timestamp s0,
                     event_type = ''understeer'',
                     severity_score =
                       min1 (fdiv (fadd (fdiv steer_corr 20) (fdiv (or0 speed_loss) 10)) 2),
                     time_loss_estimate = (if notna speed_loss then fdiv speed_loss 9 else None),
                     steering_correction_deg = steer_corr,
                     brake_spike = False,
                     speed_loss = speed_loss,
                     latG_spike = (if notna (accy_can s0) \<and> notna (accy_can s3)
                                   then fabs (fsub (accy_can s0) (accy_can s3)) else None),
                     rpm_drop = None\<rparr>)
         else None)"

definition missed_shift :: "string option \<Rightarrow> int \<Rightarrow> sample \<Rightarrow> sample \<Rightarrow> event option" where
  "missed_shift vid lap s0 s1 =
     (if notna (gear s0) \<and> notna (gear s1) \<and> gear s0 \<noteq> gear s1
         \<and> notna (nmot s1) \<and> notna (nmot s0) \<and> fgt (fsub (nmot s1) (nmot s0)) 1200
         \<and> notna (speed s0) \<and> notna (speed s1) \<and> flt (fabs (fsub (speed s0) (speed s1))) 1.5
      then
        (let rpm_drop = fsub (nmot s1) (nmot s0)
         in Some \<lparr>event_id = Lap_ident (vid_text vid) lap (timestamp s0),
                  ev_vehicle_id = vid,
                  ev_lap = lap,
                  ev_timestamp = timestamp s0,
                  event_type = ''missed_shift'',
                  severity_score = min1 (fdiv rpm_drop 4000),
                  time_loss_estimate = Some 0.5,
                  steering_correction_deg = None,
                  brake_spike = False,
                  speed_loss = fabs (fsub (speed s0) (speed s1)),
                  latG_spike = None,
                  rpm_drop = rpm_drop\<rparr>)
      else None)"

text \<open>
  Lines 113 to 238 for the sample at position \<open>i\<close>, from 3 on. \<open>df.loc[idx]\<close> is the one row
  with the timestamp \<open>idx\<close>; when several rows have it, it is a frame, the tests of every rule
  raise, each \<open>except\<close> passes, and no event is recorded. The first rule that fires makes
  the event and the loop goes on to the next sample.
\<close>

definition sample_events :: "string option \<Rightarrow> int \<Rightarrow> sample list \<Rightarrow> nat \<Rightarrow> event list" where
  "sample_events vid lap df i =
     (let s0 = df ! i; s1 = df ! (i - 1); s2 = df ! (i - 2); s3 = df ! (i - 3)
      in if length (filter (\<lambda>s. timestamp s = timestamp s0) df) \<noteq> 1 then []
         else
           (case lockup vid lap s0 s2 s3 of
              Some ev \<Rightarrow> [ev]
            | None \<Rightarrow>
               (case near_spin vid lap s0 s2 s3 of
                  Some ev \<Rightarrow> [ev]
                | None \<Rightarrow>
                   (case understeer vid lap s0 s3 of
                      Some ev \<Rightarrow> [ev]
                    | None \<Rightarrow>
                       (case missed_shift vid lap s0 s1 of
                          Some ev \<Rightarrow> [ev]
                        | None \<Rightarrow> [])))))"

definition lap_events :: "string option \<Rightarrow> int \<Rightarrow> sample list \<Rightarrow> event list" where
  "lap_events vid lap df = concat (map (sample_events vid lap df) [3..<length df])"

text \<open>
  The files of the lap directory, by the three patterns of name that lines 88 to 92 try:
  \<open>{vid}_lap_{lap}.parquet\<close>, \<open>{vid}_lap{lap}.parquet\<close> and \<open>{vid}_lag_{lap}.parquet\<close>.
\<close>

datatype lap_file = Lap_underscore string int | Lap_plain string int | Lag_underscore string int

definition find_lap_file :: "(lap_file \<Rightarrow> sample list option) \<Rightarrow> string \<Rightarrow> int \<Rightarrow> sample list option" where
  "find_lap_file laps_dir vid lap =
     (case laps_dir (Lap_underscore vid lap) of
        Some df \<Rightarrow> Some df
      | None \<Rightarrow>
         (case laps_dir (Lap_plain vid lap) of
            Some df \<Rightarrow> Some df
          | None \<Rightarrow> laps_dir (Lag_underscore vid lap)))"

text \<open>
  The loop of line 83 over the laps of the table, in its order. \<open>df.sort_index()\<close> sorts the
  samples by time with the default algorithm, which does not fix the order of samples with
  the same timestamp; it is an argument of the model, \<open>sort_index\<close>.
\<close>

fun telemetry_loop ::
  "(sample list \<Rightarrow> sample list) \<Rightarrow> (lap_file \<Rightarrow> sample list option) \<Rightarrow> row list
     \<Rightarrow> error + event list" where
  "telemetry_loop sort_index laps_dir [] = Inr []"
| "telemetry_loop sort_index laps_dir (r # rest) =
     (case floats r ''lap'' of
        None \<Rightarrow> Inl ValueError
      | Some l \<Rightarrow>
         (let vid = strs r ''vehicle_id'';
              lap = py_int l;
              evs = (case find_lap_file laps_dir (vid_text vid) lap of
                       None \<Rightarrow> []
                     | Some df \<Rightarrow> lap_events vid lap (sort_index df))
          in case telemetry_loop sort_index laps_dir rest of
               Inl e \<Rightarrow> Inl e
             | Inr later \<Rightarrow> Inr (evs @ later)))"

definition detect_telemetry_events ::
  "(sample list \<Rightarrow> sample list) \<Rightarrow> (lap_file \<Rightarrow> sample list option) \<Rightarrow> frame
     \<Rightarrow> error + event list" where
  "detect_telemetry_events sort_index laps_dir per_lap =
     (if rows per_lap = [] then Inr []
      else if \<not> set [''vehicle_id'', ''lap''] \<subseteq> set (columns per_lap) then Inl KeyError
      else telemetry_loop sort_index laps_dir (rows per_lap))"

text \<open>
  The least-squares slope in exact arithmetic, a fitting routine for the examples: no slope
  when a value is missing or when all the \<open>x\<close> are the same.
\<close>

definition lstsq_slope :: "real option list \<Rightarrow> real option list \<Rightarrow> real option" where
  "lstsq_slope x y =
     (if None \<in> set x \<or> None \<in> set y \<or> length x \<noteq> length y then None
      else
        (let xs = map the x; ys = map the y; n = real (length xs);
             sx = sum_list xs; sy = sum_list ys;
             sxx = sum_list (map (\<lambda>a. a * a) xs);
             sxy = sum_list (map (\<lambda>(a, b). a * b) (zip xs ys));
             den = n * sxx - sx * sx
         in if den = 0 then None else Some ((n * sxy - sx * sy) / den)))"

section \<open>The properties of events, in the words of the specification\<close>

text \<open>An event is within its declared ranges: a severity from 0 to 1, a time loss of at least 0.\<close>

definition within_ranges :: "event \<Rightarrow> bool" where
  "within_ranges e \<longleftrightarrow>
     (\<exists>s. severity_score e = Some s \<and> 0 \<le> s \<and> s \<le> 1)
     \<and> (\<exists>t. time_loss_estimate e = Some t \<and> 0 \<le> t)"

text \<open>
  At the sample at position \<open>i\<close> of a lap: the rise of the front brake pressure over the 2
  samples before, the drop of the speed over the 3 samples before, and the drop and the rise
  of the lateral G over the 3 samples before.
\<close>

definition brake_rise :: "sample list \<Rightarrow> nat \<Rightarrow> real option" where
  "brake_rise df i = fsub (pbrake_f (df ! i)) (pbrake_f (df ! (i - 2)))"

definition speed_drop :: "sample list \<Rightarrow> nat \<Rightarrow> real option" where
  "speed_drop df i = fsub (speed (df ! (i - 3))) (speed (df ! i))"

definition latG_drop :: "sample list \<Rightarrow> nat \<Rightarrow> real option" where
  "latG_drop df i = fsub (accy_can (df ! (i - 3))) (accy_can (df ! i))"

definition latG_rise :: "sample list \<Rightarrow> nat \<Rightarrow> real option" where
  "latG_rise df i = fsub (accy_can (df ! i)) (accy_can (df ! (i - 3)))"

section \<open>Example inputs\<close>

text \<open>An events table that has neither a \<open>vehicle_id\<close>, an \<open>event_type\<close> nor a \<open>role\<close> column.\<close>

definition events_without_columns :: frame where
  "events_without_columns =
     \<lparr>columns = [''event_id'', ''time_loss_estimate''],
      rows = [\<lparr>strs = [''event_id'' \<mapsto> ''A_L4_T1''], floats = [''time_loss_estimate'' \<mapsto> 4.5]\<rparr>,
              \<lparr>strs = [''event_id'' \<mapsto> ''B_L2_T7''], floats = [''time_loss_estimate'' \<mapsto> 1]\<rparr>]\<rparr>"

text \<open>Two simulator results; vehicle \<open>A\<close> is in the first only. A third scenario has no columns.\<close>

definition result_with_A :: sim_frame where
  "result_with_A =
     SimFrame [\<lparr>vehicle_id = ''C'', real_total_time = 355, total_event_loss = 0,
                 adj_total_time = 355, adj_position = 1, real_position = Some 1,
                 position_change = Some 0\<rparr>,
               \<lparr>vehicle_id = ''A'', real_total_time = 360, total_event_loss = 0,
                 adj_total_time = 360, adj_position = 2, real_position = Some 2,
                 position_change = Some 0\<rparr>]"

definition result_without_A :: sim_frame where
  "result_without_A =
     SimFrame [\<lparr>vehicle_id = ''C'', real_total_time = 355, total_event_loss = 5,
                 adj_total_time = 350, adj_position = 1, real_position = Some 1,
                 position_change = Some 0\<rparr>]"

text \<open>
  Scenario 4 of the specification: \<open>A\<close> drove 360 s and finished second, \<open>C\<close> drove 355 s
  and won; the only event is a lockup of \<open>A\<close> that cost 10 s.
\<close>

definition lap_row :: "string \<Rightarrow> real \<Rightarrow> real \<Rightarrow> row" where
  "lap_row v l t = \<lparr>strs = [''vehicle_id'' \<mapsto> v], floats = [''lap'' \<mapsto> l, ''lap_time_seconds'' \<mapsto> t]\<rparr>"

definition event_row :: "string \<Rightarrow> string \<Rightarrow> string \<Rightarrow> real \<Rightarrow> row" where
  "event_row i v ty loss =
     \<lparr>strs = [''event_id'' \<mapsto> i, ''vehicle_id'' \<mapsto> v, ''event_type'' \<mapsto> ty],
      floats = [''time_loss_estimate'' \<mapsto> loss]\<rparr>"

definition scenario4_laps :: frame where
  "scenario4_laps =
     \<lparr>columns = [''vehicle_id'', ''lap'', ''lap_time_seconds''],
      rows = [lap_row ''A'' 1 180, lap_row ''C'' 1 175, lap_row ''A'' 2 180, lap_row ''C'' 2 180]\<rparr>"

definition scenario4_events :: frame where
  "scenario4_events =
     \<lparr>columns = [''event_id'', ''vehicle_id'', ''event_type'', ''time_loss_estimate''],
      rows = [event_row ''A_L2_T5'' ''A'' ''lockup'' 10]\<rparr>"

definition scenario4_results :: frame where
  "scenario4_results =
     \<lparr>columns = [''VEHICLE'', ''POSITION''],
      rows = [\<lparr>strs = [''VEHICLE'' \<mapsto> ''C''], floats = [''POSITION'' \<mapsto> 1]\<rparr>,
              \<lparr>strs = [''VEHICLE'' \<mapsto> ''A''], floats = [''POSITION'' \<mapsto> 2]\<rparr>]\<rparr>"

text \<open>A removal filter that selects no event: the events table with no rows left.\<close>

definition empty_filter :: frame where
  "empty_filter = \<lparr>columns = [''event_id'', ''vehicle_id'', ''event_type'', ''time_loss_estimate''],
                    rows = []\<rparr>"

text \<open>
  Lap times in which \<open>B\<close> comes first and \<open>A\<close> second, both with a total of 10 s, and a
  third vehicle whose event is the only one.
\<close>

definition tie_laps :: frame where
  "tie_laps =
     \<lparr>columns = [''vehicle_id'', ''lap'', ''lap_time_seconds''],
      rows = [lap_row ''B'' 1 10, lap_row ''A'' 1 4, lap_row ''A'' 2 6, lap_row ''C'' 1 20]\<rparr>"

definition tie_events :: frame where
  "tie_events =
     \<lparr>columns = [''event_id'', ''vehicle_id'', ''event_type'', ''time_loss_estimate''],
      rows = [event_row ''C_L1_T3'' ''C'' ''understeer'' 1]\<rparr>"

text \<open>
  Six detected events. \<open>A\<close> and \<open>C\<close> are tied on both keys, \<open>A\<close> detected first; the event
  of \<open>E\<close> has no severity.
\<close>

definition detected :: "string \<Rightarrow> real \<Rightarrow> string \<Rightarrow> real option \<Rightarrow> real option \<Rightarrow> row" where
  "detected v l ty sev loss =
     \<lparr>strs = [''vehicle_id'' \<mapsto> v, ''event_type'' \<mapsto> ty],
      floats = (\<lambda>c. if c = ''lap'' then Some l
                    else if c = ''severity_score'' then sev
                    else if c = ''time_loss_estimate'' then loss else None)\<rparr>"

definition catalog_events :: frame where
  "catalog_events =
     \<lparr>columns = [''vehicle_id'', ''lap'', ''event_type'', ''severity_score'', ''time_loss_estimate''],
      rows = [detected ''A'' 4 ''pace_collapse'' (Some 0.7) (Some 4.5),
              detected ''B'' 2 ''lockup'' (Some 0.9) (Some 1),
              detected ''C'' 7 ''pace_collapse'' (Some 0.7) (Some 4.5),
              detected ''D'' 3 ''near_spin'' (Some 0.9) (Some 2),
              detected ''E'' 5 ''understeer'' None (Some 3),
              detected ''F'' 6 ''missed_shift'' (Some 0.3) (Some 0.5)]\<rparr>"

text \<open>Lap records.\<close>

definition lap_record ::
  "string \<Rightarrow> real option \<Rightarrow> real option \<Rightarrow> real option \<Rightarrow> real option \<Rightarrow> real option \<Rightarrow> row" where
  "lap_record v l t lat long e =
     \<lparr>strs = [''vehicle_id'' \<mapsto> v],
      floats = (\<lambda>c. if c = ''lap'' then l
                    else if c = ''lap_time_seconds'' then t
                    else if c = ''peak_lat_G'' then lat
                    else if c = ''peak_long_G'' then long
                    else if c = ''end_time'' then e else None)\<rparr>"

definition lap_columns :: "string list" where
  "lap_columns = [''vehicle_id'', ''lap'', ''lap_time_seconds'', ''peak_lat_G'', ''peak_long_G'',
                  ''end_time'']"

text \<open>
  Scenario 1 of the specification: laps 1 to 3 of \<open>A\<close> take 90, 91 and 90.5 s with a peak
  lateral G of 1.4 and a peak longitudinal G of 1.1, lap 4 takes 95 s with 1.0 and 0.8.
\<close>

definition scenario1_laps :: frame where
  "scenario1_laps =
     \<lparr>columns = lap_columns,
      rows = [lap_record ''A'' (Some 1) (Some 90) (Some 1.4) (Some 1.1) (Some 100),
              lap_record ''A'' (Some 2) (Some 91) (Some 1.4) (Some 1.1) (Some 200),
              lap_record ''A'' (Some 3) (Some 90.5) (Some 1.4) (Some 1.1) (Some 300),
              lap_record ''A'' (Some 4) (Some 95) (Some 1.0) (Some 0.8) (Some 400)]\<rparr>"

text \<open>A vehicle with two laps, the second slower and with less grip than the first.\<close>

definition two_laps :: frame where
  "two_laps =
     \<lparr>columns = lap_columns,
      rows = [lap_record ''A'' (Some 1) (Some 90) (Some 1.5) (Some 1.2) (Some 100),
              lap_record ''A'' (Some 2) (Some 95) (Some 1.0) (Some 0.8) (Some 195)]\<rparr>"

text \<open>A lap record whose lap number is missing, and a table without the \<open>peak_lat_G\<close> column.\<close>

definition lap_without_number :: frame where
  "lap_without_number =
     \<lparr>columns = lap_columns,
      rows = [lap_record ''A'' None (Some 90) (Some 1.5) (Some 1.2) (Some 100)]\<rparr>"

definition laps_without_peak_lat_G :: frame where
  "laps_without_peak_lat_G =
     \<lparr>columns = [''vehicle_id'', ''lap'', ''lap_time_seconds'', ''peak_long_G'', ''end_time''],
      rows = [lap_record ''A'' (Some 1) (Some 90) None (Some 1.2) (Some 100)]\<rparr>"

text \<open>
  Scenario 2 of the specification: at the fourth sample the front brake pressure is 15 above
  the one two samples before and the speed 10 below the one three samples before. In the
  first lap the lateral G is 0.5 below the one three samples before, in the second 0.5 above.
\<close>

definition telemetry_sample :: "real \<Rightarrow> real \<Rightarrow> real \<Rightarrow> real \<Rightarrow> sample" where
  "telemetry_sample t v g p =
     \<lparr>timestamp = t, speed = Some v, Steering_Angle = Some 0, accy_can = Some g,
      pbrake_f = Some p, pbrake_r = None, nmot = Some 5000, gear = Some 3\<rparr>"

definition lap_with_falling_latG :: "sample list" where
  "lap_with_falling_latG =
     [telemetry_sample 0 100 1.0 0, telemetry_sample 1 98 1.0 5,
      telemetry_sample 2 95 0.8 12, telemetry_sample 3 90 0.5 20]"

definition lap_with_rising_latG :: "sample list" where
  "lap_with_rising_latG =
     [telemetry_sample 0 100 0.5 0, telemetry_sample 1 98 0.6 5,
      telemetry_sample 2 95 0.8 12, telemetry_sample 3 90 1.0 20]"

definition lap_directory :: "lap_file \<Rightarrow> sample list option" where
  "lap_directory f = (if f = Lap_underscore ''B'' 2 then Some lap_with_falling_latG else None)"

definition laps_of_B :: frame where
  "laps_of_B =
     \<lparr>columns = lap_columns,
      rows = [lap_record ''B'' (Some 2) (Some 90) (Some 1.5) (Some 1.2) (Some 100)]\<rparr>"

definition rising_lap_directory :: "lap_file \<Rightarrow> sample list option" where
  "rising_lap_directory f = (if f = Lap_underscore ''B'' 2 then Some lap_with_rising_latG else None)"

text \<open>An events table of a race in which nothing was detected.\<close>

definition no_events :: frame where
  "no_events = \<lparr>columns = [''event_id'', ''vehicle_id'', ''event_type'', ''time_loss_estimate''],
                 rows = []\<rparr>"

section \<open>The removal filter\<close>

lemma columns_select_eq: "columns (select_eq df c v) = columns df"
  by (simp add: select_eq_def)

text \<open>
  Claim C10. A criterion whose column the events table does not have is ignored: with no
  \<open>role\<close> column a role argument changes nothing, and likewise for \<open>vehicle_id\<close> and
  \<open>event_type\<close>; when all three columns are absent the table is returned whole. The filter
  is a total function, so nothing is raised.
\<close>

theorem filter_ignores_absent_column:
  "(''role'' \<notin> set (columns ev) \<longrightarrow>
      filter_events_for_removal ev v t (Some ro) = filter_events_for_removal ev v t None)
   \<and> (''vehicle_id'' \<notin> set (columns ev) \<longrightarrow>
      filter_events_for_removal ev (Some vid) t r = filter_events_for_removal ev None t r)
   \<and> (''event_type'' \<notin> set (columns ev) \<longrightarrow>
      filter_events_for_removal ev v (Some et) r = filter_events_for_removal ev v None r)
   \<and> (''vehicle_id'' \<notin> set (columns ev) \<and> ''event_type'' \<notin> set (columns ev)
        \<and> ''role'' \<notin> set (columns ev) \<longrightarrow>
      filter_events_for_removal ev v t r = ev)"
  by (auto simp: filter_events_for_removal_def Let_def columns_select_eq split: option.splits)

theorem filter_ignores_absent_column_witness:
  "''role'' \<notin> set (columns events_without_columns)
   \<and> ''vehicle_id'' \<notin> set (columns events_without_columns)
   \<and> ''event_type'' \<notin> set (columns events_without_columns)
   \<and> filter_events_for_removal events_without_columns
        (Some ''A'') (Some ''lockup'') (Some ''major_mistake'') = events_without_columns
   \<and> length (rows events_without_columns) = 2"
proof -
  have absent: "''role'' \<notin> set (columns events_without_columns)"
      "''vehicle_id'' \<notin> set (columns events_without_columns)"
      "''event_type'' \<notin> set (columns events_without_columns)"
    by (simp_all add: events_without_columns_def)
  have "filter_events_for_removal events_without_columns
          (Some ''A'') (Some ''lockup'') (Some ''major_mistake'') = events_without_columns"
    using filter_ignores_absent_column
            [of events_without_columns "Some ''A''" "Some ''lockup''" "''major_mistake''"
                "''A''" "Some ''major_mistake''" "''lockup''"] absent
    by blast
  moreover have "length (rows events_without_columns) = 2"
    by (simp add: events_without_columns_def)
  ultimately show ?thesis using absent by blast
qed

section \<open>The scenario comparator\<close>

lemma scenario_row_includes:
  assumes "includes_vehicle df d"
  shows "\<exists>e. scenario_row df d = Inr e"
proof -
  from assms obtain rs where rs: "df = SimFrame rs" "d \<in> set (map vehicle_id rs)"
    by (auto simp: includes_vehicle_def split: sim_frame.splits)
  then have "filter (\<lambda>r. vehicle_id r = d) rs \<noteq> []"
    by (auto simp: filter_empty_conv)
  then obtain r rest where "filter (\<lambda>r. vehicle_id r = d) rs = r # rest"
    by (cases "filter (\<lambda>r. vehicle_id r = d) rs") auto
  then show ?thesis using rs by (simp add: scenario_row_def)
qed

lemma scenario_row_lacks:
  assumes "\<not> includes_vehicle df d"
  shows "scenario_row df d = Inl KeyError \<or> scenario_row df d = Inl IndexError"
proof (cases df)
  case EmptyFrame
  then show ?thesis by (simp add: scenario_row_def)
next
  case (SimFrame rs)
  with assms have "filter (\<lambda>r. vehicle_id r = d) rs = []"
    by (auto simp: includes_vehicle_def filter_empty_conv)
  with SimFrame show ?thesis by (simp add: scenario_row_def)
qed

lemma compare_loop_dom:
  "\<exists>m. compare_loop sc d acc = Inr m \<and>
       dom m = dom acc \<union> {name. \<exists>df. (name, df) \<in> set sc \<and> includes_vehicle df d}"
proof (induction sc arbitrary: acc)
  case Nil
  then show ?case by simp
next
  case (Cons p sc)
  obtain name df where p: "p = (name, df)" by (cases p)
  show ?case
  proof (cases "includes_vehicle df d")
    case True
    then obtain e where e: "scenario_row df d = Inr e"
      using scenario_row_includes by blast
    from Cons.IH[of "acc(name \<mapsto> e)"] obtain m where
      m: "compare_loop sc d (acc(name \<mapsto> e)) = Inr m"
         "dom m = dom (acc(name \<mapsto> e))
                    \<union> {name. \<exists>df. (name, df) \<in> set sc \<and> includes_vehicle df d}"
      by blast
    show ?thesis using m e True unfolding p by auto
  next
    case False
    from Cons.IH[of acc] obtain m where
      m: "compare_loop sc d acc = Inr m"
         "dom m = dom acc \<union> {name. \<exists>df. (name, df) \<in> set sc \<and> includes_vehicle df d}"
      by blast
    show ?thesis using m False scenario_row_lacks[OF False] unfolding p by auto
  qed
qed

text \<open>
  Claim C8. The comparator returns, it never raises, and the scenarios of its output are
  exactly the scenarios whose result includes the target vehicle.
\<close>

theorem compare_scenarios_entries:
  "\<exists>cmp. compare_scenarios scenarios d = Inr cmp \<and> cmp_driver_id cmp = d \<and>
         dom (cmp_scenarios cmp) =
           {name. \<exists>df. (name, df) \<in> set scenarios \<and> includes_vehicle df d}"
proof -
  from compare_loop_dom[of scenarios d Map.empty] obtain m where
    "compare_loop scenarios d Map.empty = Inr m"
    "dom m = {name. \<exists>df. (name, df) \<in> set scenarios \<and> includes_vehicle df d}"
    by auto
  then show ?thesis by (simp add: compare_scenarios_def)
qed

theorem compare_scenarios_entries_witness:
  "\<exists>cmp. compare_scenarios
            [(''baseline'', result_with_A), (''no lockup'', result_without_A),
             (''no laps'', EmptyFrame)] ''A'' = Inr cmp
         \<and> dom (cmp_scenarios cmp) = {''baseline''}"
proof -
  have eq: "{name. \<exists>df. (name, df) \<in> set [(''baseline'', result_with_A),
               (''no lockup'', result_without_A), (''no laps'', EmptyFrame)]
             \<and> includes_vehicle df ''A''} = {''baseline''}"
    by (auto simp: includes_vehicle_def result_with_A_def result_without_A_def)
  show ?thesis
    using compare_scenarios_entries
            [of "[(''baseline'', result_with_A), (''no lockup'', result_without_A),
                  (''no laps'', EmptyFrame)]" "''A''"]
    unfolding eq by blast
qed

section \<open>The simulator\<close>

lemma length_rank_rows: "length (rank_rows res n xs) = length xs"
  by (induction xs arbitrary: n) (simp_all add: Let_def)

lemma nth_rank_rows:
  "i < length xs \<Longrightarrow>
     rank_rows res n xs ! i =
       \<lparr>vehicle_id = vehicle_id (xs ! i), real_total_time = real_total_time (xs ! i),
        total_event_loss = total_event_loss (xs ! i), adj_total_time = adj_total_time (xs ! i),
        adj_position = n + i, real_position = real_position_of res (vehicle_id (xs ! i)),
        position_change = map_option (\<lambda>p. p - real (n + i))
                            (real_position_of res (vehicle_id (xs ! i)))\<rparr>"
proof (induction xs arbitrary: n i)
  case Nil
  then show ?case by simp
next
  case (Cons x xs)
  show ?case
  proof (cases i)
    case 0
    then show ?thesis by (simp add: Let_def)
  next
    case (Suc j)
    with Cons.prems have "j < length xs" by simp
    from Cons.IH[OF this, of "Suc n"] Suc show ?thesis by simp
  qed
qed

lemma map_adj_position_rank_rows:
  "map adj_position (rank_rows res n xs) = [n..<n + length xs]"
  by (rule nth_equalityI) (simp_all add: length_rank_rows nth_rank_rows)

lemma map_adj_total_time_rank_rows:
  "map adj_total_time (rank_rows res n xs) = map adj_total_time xs"
  by (rule nth_equalityI) (simp_all add: length_rank_rows nth_rank_rows)

lemma map_vehicle_id_rank_rows:
  "map vehicle_id (rank_rows res n xs) = map vehicle_id xs"
  by (rule nth_equalityI) (simp_all add: length_rank_rows nth_rank_rows)

lemma sorted_group_keys: "sorted (group_keys k df)"
  by (simp add: group_keys_def)

lemma distinct_group_keys: "distinct (group_keys k df)"
  by (simp add: group_keys_def)

lemma set_map_filter_conv: "set (List.map_filter f xs) = {y. \<exists>x \<in> set xs. f x = Some y}"
  by (induction xs) (auto split: option.splits)

lemma set_group_keys: "set (group_keys k df) = {v. \<exists>r \<in> set (rows df). strs r k = Some v}"
  by (simp add: group_keys_def set_map_filter_conv)

lemma map_fst_groupby_sum: "map fst (groupby_sum k c df) = group_keys k df"
  by (simp add: groupby_sum_def comp_def)

lemma map_of_groupby_sum:
  "map_of (groupby_sum k c df) v = (if v \<in> set (group_keys k df) then Some (group_sum k c df v) else None)"
  by (induction "group_keys k df") (auto simp: groupby_sum_def map_of_map_restrict restrict_map_def)

lemma group_sum_absent: "v \<notin> set (group_keys k df) \<Longrightarrow> group_sum k c df v = 0"
proof -
  assume "v \<notin> set (group_keys k df)"
  then have "filter (\<lambda>r. strs r k = Some v) (rows df) = []"
    by (auto simp: set_group_keys filter_empty_conv)
  then show ?thesis by (simp add: group_sum_def nansum_def)
qed

lemma map_vehicle_id_totals_frame:
  "totals_frame totals lo = Inr df \<Longrightarrow> map vehicle_id df = map fst totals"
  by (auto simp: totals_frame_def split: option.splits prod.splits)

lemma simulate_result:
  assumes "simulate_no_events srt lt evd etr res = Inr (SimFrame out)"
  obtains ev losses df where
    "''vehicle_id'' \<in> set (columns lt)" "''lap_time_seconds'' \<in> set (columns lt)"
    "events_kept evd etr = Inr ev" "event_losses ev = Some losses"
    "totals_frame (groupby_sum ''vehicle_id'' ''lap_time_seconds'' lt) (Some losses) = Inr df"
    "out = rank_rows res 1 (srt df)"
  using assms
  by (auto simp: simulate_no_events_def Let_def totals_frame_def split: if_splits sum.splits option.splits)


lemma sorted_wrt_filter_nth:
  assumes "sorted_wrt R (filter P ys)" "j < i" "i < length ys" "P (ys ! j)" "P (ys ! i)"
  shows "R (ys ! j) (ys ! i)"
proof -
  have j: "j < length ys" using assms by simp
  have split: "ys = take j ys @ ys ! j # drop (Suc j) ys"
    using id_take_nth_drop[OF j] .
  have "filter P ys = filter P (take j ys) @ ys ! j # filter P (drop (Suc j) ys)"
    using assms(4) by (subst split) simp
  with assms(1) have "sorted_wrt R (ys ! j # filter P (drop (Suc j) ys))"
    by (simp add: sorted_wrt_append)
  then have all: "\<forall>y \<in> set (filter P (drop (Suc j) ys)). R (ys ! j) y" by simp
  have "ys ! i = drop (Suc j) ys ! (i - Suc j)" using assms(2,3) by simp
  moreover have "i - Suc j < length (drop (Suc j) ys)" using assms(2,3) by simp
  ultimately have "ys ! i \<in> set (drop (Suc j) ys)" by (metis nth_mem)
  with assms(5) all show ?thesis by simp
qed

text \<open>
  Claim C1, amended. For every sort routine that returns the rows in ascending order of
  the adjusted total time, and every input on which the simulator returns a result: the
  rows carry the positions 1, 2, ... in order of ascending adjusted total time, each vehicle
  with a lap-time total has exactly one row, and a strictly smaller adjusted time gives a
  strictly smaller position. Vehicles with equal adjusted times are not ranked in the order
  of the lap-times input; when the sort routine keeps equal rows in place they are ranked
  by ascending vehicle id, the order in which \<open>groupby\<close> delivers the totals.
\<close>

theorem adjusted_position_is_rank:
  assumes srt: "sorts_by_adj_total_time srt"
      and run: "simulate_no_events srt lap_times event_detection events_to_remove results_df
                  = Inr (SimFrame out)"
  shows "map adj_position out = [1..<Suc (length out)]
       \<and> sorted (map adj_total_time out)
       \<and> distinct (map vehicle_id out)
       \<and> set (map vehicle_id out) = {v. \<exists>r \<in> set (rows lap_times). strs r ''vehicle_id'' = Some v}
       \<and> (\<forall>a \<in> set out. \<forall>b \<in> set out.
            adj_total_time a < adj_total_time b \<longrightarrow> adj_position a < adj_position b)
       \<and> (keeps_ties_in_place srt \<longrightarrow>
            (\<forall>a \<in> set out. \<forall>b \<in> set out.
               adj_total_time a = adj_total_time b \<and> vehicle_id a < vehicle_id b
                 \<longrightarrow> adj_position a < adj_position b))"
proof -
  from run obtain ev losses df where
    df: "totals_frame (groupby_sum ''vehicle_id'' ''lap_time_seconds'' lap_times) (Some losses) = Inr df"
    and out: "out = rank_rows results_df 1 (srt df)"
    by (rule simulate_result)
  define ys where "ys = srt df"
  have mset: "mset ys = mset df" and sorted: "sorted (map adj_total_time ys)"
    using srt by (simp_all add: sorts_by_adj_total_time_def ys_def)
  have len: "length out = length ys" by (simp add: out ys_def length_rank_rows)
  have vid_df: "map vehicle_id df = group_keys ''vehicle_id'' lap_times"
    using map_vehicle_id_totals_frame[OF df] by (simp add: map_fst_groupby_sum)
  have nth_pos: "adj_position (out ! i) = Suc i" and nth_adj: "adj_total_time (out ! i) = adj_total_time (ys ! i)"
    and nth_vid: "vehicle_id (out ! i) = vehicle_id (ys ! i)" if "i < length ys" for i
    using that by (simp_all add: out ys_def[symmetric] nth_rank_rows)
  have c1: "map adj_position out = [1..<Suc (length out)]"
    by (simp add: out map_adj_position_rank_rows length_rank_rows)
  have c2: "sorted (map adj_total_time out)"
    using sorted by (simp add: out ys_def[symmetric] map_adj_total_time_rank_rows)
  have mset_vid: "mset (map vehicle_id ys) = mset (map vehicle_id df)"
    using mset by (metis mset_map)
  have vid_out: "map vehicle_id out = map vehicle_id ys"
    by (simp add: out ys_def[symmetric] map_vehicle_id_rank_rows)
  have c3: "distinct (map vehicle_id out)"
    using mset_eq_imp_distinct_iff[OF mset_vid] distinct_group_keys[of "''vehicle_id''" lap_times]
    by (simp add: vid_out vid_df)
  have c4: "set (map vehicle_id out) = {v. \<exists>r \<in> set (rows lap_times). strs r ''vehicle_id'' = Some v}"
    using mset_eq_setD[OF mset_vid] set_group_keys[of "''vehicle_id''" lap_times]
    by (simp only: vid_out vid_df)
  have c5: "adj_position a < adj_position b"
    if "a \<in> set out" "b \<in> set out" "adj_total_time a < adj_total_time b" for a b
  proof -
    from that(1,2) len obtain i j where i: "i < length ys" "a = out ! i" and j: "j < length ys" "b = out ! j"
      by (metis in_set_conv_nth)
    have "i < j"
    proof (rule ccontr)
      assume "\<not> i < j"
      then have "j \<le> i" by simp
      then have "adj_total_time (ys ! j) \<le> adj_total_time (ys ! i)"
        using sorted i(1) by (simp add: sorted_iff_nth_mono)
      with that(3) show False by (simp add: i j nth_adj)
    qed
    then show ?thesis by (simp add: i j nth_pos)
  qed
  have c6: "adj_position a < adj_position b"
    if stable: "keeps_ties_in_place srt" and ab: "a \<in> set out" "b \<in> set out"
       "adj_total_time a = adj_total_time b" "vehicle_id a < vehicle_id b" for a b
  proof -
    from ab(1,2) len obtain i j where i: "i < length ys" "a = out ! i" and j: "j < length ys" "b = out ! j"
      by (metis in_set_conv_nth)
    define k where "k = adj_total_time a"
    let ?P = "\<lambda>r. adj_total_time r = k"
    have filt: "filter ?P ys = filter ?P df"
      using stable by (simp add: keeps_ties_in_place_def ys_def)
    have "sorted_wrt (<) (map vehicle_id df)"
      using sorted_group_keys[of "''vehicle_id''" lap_times] distinct_group_keys[of "''vehicle_id''" lap_times]
      by (simp add: vid_df strict_sorted_iff)
    then have "sorted_wrt (\<lambda>x y. vehicle_id x < vehicle_id y) df"
      by (simp add: sorted_wrt_map)
    then have sw: "sorted_wrt (\<lambda>x y. vehicle_id x < vehicle_id y) (filter ?P ys)"
      unfolding filt by (rule sorted_wrt_filter)
    have Pi: "?P (ys ! i)" and Pj: "?P (ys ! j)"
      using ab(3) by (simp_all add: k_def i j nth_adj)
    have "i < j"
    proof (rule ccontr)
      assume "\<not> i < j"
      moreover have "i \<noteq> j" using ab(4) i j by auto
      ultimately have "j < i" by simp
      from sorted_wrt_filter_nth[OF sw this i(1) Pj Pi]
      have "vehicle_id (ys ! j) < vehicle_id (ys ! i)" .
      with ab(4) show False by (simp add: i j nth_vid)
    qed
    then show ?thesis by (simp add: i j nth_pos)
  qed
  from c1 c2 c3 c4 c5 c6 show ?thesis by blast
qed

text \<open>Insertion sort on the adjusted time is such a routine, and it keeps equal rows in place.\<close>

lemma sort_key_sorts: "sorts_by_adj_total_time (sort_key adj_total_time)"
  by (simp add: sorts_by_adj_total_time_def)

lemma sort_key_keeps_ties: "keeps_ties_in_place (sort_key adj_total_time)"
  by (simp add: keeps_ties_in_place_def sort_key_stable)

theorem adjusted_position_is_rank_witness:
  "sorts_by_adj_total_time (sort_key adj_total_time)
   \<and> keeps_ties_in_place (sort_key adj_total_time)
   \<and> (\<exists>a b c. simulate_no_events (sort_key adj_total_time) tie_laps tie_events None None
                  = Inr (SimFrame [a, b, c])
        \<and> map adj_position [a, b, c] = [1, 2, 3]
        \<and> map vehicle_id [a, b, c] = [''A'', ''B'', ''C'']
        \<and> adj_total_time a = adj_total_time b \<and> vehicle_id a < vehicle_id b
        \<and> adj_total_time b < adj_total_time c
        \<and> (\<forall>x \<in> set [a, b, c]. \<forall>y \<in> set [a, b, c].
              adj_total_time x < adj_total_time y \<longrightarrow> adj_position x < adj_position y)
        \<and> (\<forall>x \<in> set [a, b, c]. \<forall>y \<in> set [a, b, c].
              adj_total_time x = adj_total_time y \<and> vehicle_id x < vehicle_id y
                \<longrightarrow> adj_position x < adj_position y))"
proof -
  define a where "a = \<lparr>vehicle_id = ''A'', real_total_time = 10, total_event_loss = 0,
           adj_total_time = 10, adj_position = 1, real_position = None,
           position_change = None\<rparr>"
  define b where "b = \<lparr>vehicle_id = ''B'', real_total_time = 10, total_event_loss = 0,
           adj_total_time = 10, adj_position = 2, real_position = None,
           position_change = None\<rparr>"
  define c where "c = \<lparr>vehicle_id = ''C'', real_total_time = 20, total_event_loss = 1,
           adj_total_time = 19, adj_position = 3, real_position = None,
           position_change = None\<rparr>"
  have run: "simulate_no_events (sort_key adj_total_time) tie_laps tie_events None None
               = Inr (SimFrame [a, b, c])"
    unfolding a_def b_def c_def by code_simp
  have facts: "map adj_position [a, b, c] = [1, 2, 3]" "map vehicle_id [a, b, c] = [''A'', ''B'', ''C'']"
     "adj_total_time a = adj_total_time b" "vehicle_id a < vehicle_id b"
     "adj_total_time b < adj_total_time c"
    by (simp_all add: a_def b_def c_def)
  from adjusted_position_is_rank[OF sort_key_sorts run] sort_key_keeps_ties
  have mono: "(\<forall>x \<in> set [a, b, c]. \<forall>y \<in> set [a, b, c].
              adj_total_time x < adj_total_time y \<longrightarrow> adj_position x < adj_position y)"
    and ties: "(\<forall>x \<in> set [a, b, c]. \<forall>y \<in> set [a, b, c].
              adj_total_time x = adj_total_time y \<and> vehicle_id x < vehicle_id y
                \<longrightarrow> adj_position x < adj_position y)"
    by blast+
  have "simulate_no_events (sort_key adj_total_time) tie_laps tie_events None None
                  = Inr (SimFrame [a, b, c])
        \<and> map adj_position [a, b, c] = [1, 2, 3]
        \<and> map vehicle_id [a, b, c] = [''A'', ''B'', ''C'']
        \<and> adj_total_time a = adj_total_time b \<and> vehicle_id a < vehicle_id b
        \<and> adj_total_time b < adj_total_time c
        \<and> (\<forall>x \<in> set [a, b, c]. \<forall>y \<in> set [a, b, c].
              adj_total_time x < adj_total_time y \<longrightarrow> adj_position x < adj_position y)
        \<and> (\<forall>x \<in> set [a, b, c]. \<forall>y \<in> set [a, b, c].
              adj_total_time x = adj_total_time y \<and> vehicle_id x < vehicle_id y
                \<longrightarrow> adj_position x < adj_position y)"
    using run facts mono ties by (intro conjI)
  then have "\<exists>a b c. simulate_no_events (sort_key adj_total_time) tie_laps tie_events None None
                  = Inr (SimFrame [a, b, c])
        \<and> map adj_position [a, b, c] = [1, 2, 3]
        \<and> map vehicle_id [a, b, c] = [''A'', ''B'', ''C'']
        \<and> adj_total_time a = adj_total_time b \<and> vehicle_id a < vehicle_id b
        \<and> adj_total_time b < adj_total_time c
        \<and> (\<forall>x \<in> set [a, b, c]. \<forall>y \<in> set [a, b, c].
              adj_total_time x < adj_total_time y \<longrightarrow> adj_position x < adj_position y)
        \<and> (\<forall>x \<in> set [a, b, c]. \<forall>y \<in> set [a, b, c].
              adj_total_time x = adj_total_time y \<and> vehicle_id x < vehicle_id y
                \<longrightarrow> adj_position x < adj_position y)"
    by (intro exI)
  with sort_key_sorts sort_key_keeps_ties show ?thesis by (intro conjI)
qed

text \<open>
  The claim as stated fails: \<open>B\<close> comes before \<open>A\<close> in the lap times, both have an adjusted
  time of 10 s, and \<open>A\<close> gets position 1. The totals reach the sort grouped by vehicle id, so
  the order of the input is lost before any sort routine sees it.
\<close>

theorem tie_not_in_input_order:
  "strs (rows tie_laps ! 0) ''vehicle_id'' = Some ''B''
   \<and> strs (rows tie_laps ! 1) ''vehicle_id'' = Some ''A''
   \<and> simulate_no_events (sort_key adj_total_time) tie_laps tie_events None None
       = Inr (SimFrame
           [\<lparr>vehicle_id = ''A'', real_total_time = 10, total_event_loss = 0,
              adj_total_time = 10, adj_position = 1, real_position = None,
              position_change = None\<rparr>,
            \<lparr>vehicle_id = ''B'', real_total_time = 10, total_event_loss = 0,
              adj_total_time = 10, adj_position = 2, real_position = None,
              position_change = None\<rparr>,
            \<lparr>vehicle_id = ''C'', real_total_time = 20, total_event_loss = 1,
              adj_total_time = 19, adj_position = 3, real_position = None,
              position_change = None\<rparr>])"
  by code_simp

lemma sum_list_mset_cong:
  fixes xs ys :: "real list"
  assumes "mset xs = mset ys"
  shows "sum_list xs = sum_list ys"
  using assms by (metis sum_mset_sum_list)

lemma groupby_sum_row_order:
  assumes "mset (rows df') = mset (rows df)"
  shows "groupby_sum k c df' = groupby_sum k c df"
proof -
  have "set (List.map_filter (\<lambda>r. strs r k) (rows df')) = set (List.map_filter (\<lambda>r. strs r k) (rows df))"
    using mset_eq_setD[OF assms]
    by (simp add: List.map_filter_def)
  then have keys: "group_keys k df' = group_keys k df"
    unfolding group_keys_def by (metis sorted_list_of_set_sort_remdups)
  have "mset (map (\<lambda>x. case x of None \<Rightarrow> 0 | Some v \<Rightarrow> v)
               (map (\<lambda>r. floats r c) (filter (\<lambda>r. strs r k = Some v) (rows df'))))
      = mset (map (\<lambda>x. case x of None \<Rightarrow> 0 | Some v \<Rightarrow> v)
               (map (\<lambda>r. floats r c) (filter (\<lambda>r. strs r k = Some v) (rows df))))" for v
    using assms by simp
  then have "group_sum k c df' v = group_sum k c df v" for v
    unfolding group_sum_def nansum_def by (rule sum_list_mset_cong)
  with keys show ?thesis by (simp add: groupby_sum_def)
qed

text \<open>
  Whatever the sort routine, the result is the same for every order of the rows of the lap
  times: no routine can rank equal vehicles in the order of the input.
\<close>

lemma simulate_ignores_row_order:
  assumes "mset (rows lap_times') = mset (rows lap_times)"
      and "columns lap_times' = columns lap_times"
  shows "simulate_no_events srt lap_times' event_detection events_to_remove results_df
           = simulate_no_events srt lap_times event_detection events_to_remove results_df"
  by (simp add: simulate_no_events_def assms(2) groupby_sum_row_order[OF assms(1)])

lemma rank_rows_mem:
  assumes "r \<in> set (rank_rows res n xs)"
  shows "\<exists>x \<in> set xs. vehicle_id r = vehicle_id x \<and> real_total_time r = real_total_time x
           \<and> total_event_loss r = total_event_loss x \<and> adj_total_time r = adj_total_time x
           \<and> real_position r = real_position_of res (vehicle_id x)
           \<and> position_change r = map_option (\<lambda>p. p - real (adj_position r)) (real_position r)"
proof -
  from assms obtain i where i: "i < length xs" "r = rank_rows res n xs ! i"
    by (metis in_set_conv_nth length_rank_rows)
  have "xs ! i \<in> set xs" using i(1) by simp
  then show ?thesis using i by (auto simp: nth_rank_rows)
qed

lemma totals_frame_mem:
  assumes "totals_frame totals (Some losses) = Inr df" "x \<in> set df"
  shows "\<exists>v t. (v, t) \<in> set totals
           \<and> vehicle_id x = v \<and> real_total_time x = t
           \<and> total_event_loss x = (case map_of losses v of None \<Rightarrow> 0 | Some l \<Rightarrow> l)
           \<and> adj_total_time x = t - total_event_loss x"
  using assms by (fastforce simp: totals_frame_def Let_def)

lemma groupby_sum_mem:
  "(v, t) \<in> set (groupby_sum k c df) \<Longrightarrow> t = group_sum k c df v"
  by (auto simp: groupby_sum_def)

lemma loss_lookup:
  "(case map_of (groupby_sum k c ev) v of None \<Rightarrow> 0 | Some l \<Rightarrow> l) = group_sum k c ev v"
  by (simp add: map_of_groupby_sum group_sum_absent)

lemma sim_row_facts:
  assumes srt: "sorts_by_adj_total_time srt"
      and run: "simulate_no_events srt lap_times event_detection events_to_remove results_df
                  = Inr (SimFrame out)"
      and r: "r \<in> set out"
  obtains kept losses where
    "events_kept event_detection events_to_remove = Inr kept"
    "event_losses kept = Some losses"
    "real_total_time r = group_sum ''vehicle_id'' ''lap_time_seconds'' lap_times (vehicle_id r)"
    "total_event_loss r = (case map_of losses (vehicle_id r) of None \<Rightarrow> 0 | Some l \<Rightarrow> l)"
    "adj_total_time r = real_total_time r - total_event_loss r"
    "real_position r = real_position_of results_df (vehicle_id r)"
    "position_change r = map_option (\<lambda>p. p - real (adj_position r)) (real_position r)"
proof -
  from run obtain ev losses df where
    kept: "events_kept event_detection events_to_remove = Inr ev" "event_losses ev = Some losses"
    and df: "totals_frame (groupby_sum ''vehicle_id'' ''lap_time_seconds'' lap_times) (Some losses) = Inr df"
    and out: "out = rank_rows results_df 1 (srt df)"
    by (rule simulate_result)
  from r out obtain x where x: "x \<in> set (srt df)" "vehicle_id r = vehicle_id x"
      "real_total_time r = real_total_time x" "total_event_loss r = total_event_loss x"
      "adj_total_time r = adj_total_time x"
      "real_position r = real_position_of results_df (vehicle_id x)"
      "position_change r = map_option (\<lambda>p. p - real (adj_position r)) (real_position r)"
    using rank_rows_mem[of r results_df 1 "srt df"] by blast
  have "set (srt df) = set df"
    using srt by (metis sorts_by_adj_total_time_def mset_eq_setD)
  with x(1) have "x \<in> set df" by simp
  from totals_frame_mem[OF df this] obtain v t where
    vt: "(v, t) \<in> set (groupby_sum ''vehicle_id'' ''lap_time_seconds'' lap_times)"
        "vehicle_id x = v" "real_total_time x = t"
        "total_event_loss x = (case map_of losses v of None \<Rightarrow> 0 | Some l \<Rightarrow> l)"
        "adj_total_time x = t - total_event_loss x"
    by auto
  have "t = group_sum ''vehicle_id'' ''lap_time_seconds'' lap_times v"
    using groupby_sum_mem[OF vt(1)] .
  with x vt kept that show ?thesis by simp
qed


lemma result_vehicles:
  assumes srt: "sorts_by_adj_total_time srt"
      and run: "simulate_no_events srt lap_times event_detection events_to_remove results_df
                  = Inr (SimFrame out)"
  shows "set (map vehicle_id out) = {v. \<exists>r \<in> set (rows lap_times). strs r ''vehicle_id'' = Some v}"
proof -
  from run obtain ev losses df where
    df: "totals_frame (groupby_sum ''vehicle_id'' ''lap_time_seconds'' lap_times) (Some losses) = Inr df"
    and out: "out = rank_rows results_df 1 (srt df)"
    by (rule simulate_result)
  have "mset (srt df) = mset df"
    using srt by (simp add: sorts_by_adj_total_time_def)
  then have "set (map vehicle_id (srt df)) = set (map vehicle_id df)"
    by (metis mset_eq_setD mset_map)
  also have "map vehicle_id df = group_keys ''vehicle_id'' lap_times"
    using map_vehicle_id_totals_frame[OF df] by (simp add: map_fst_groupby_sum)
  finally show ?thesis
    by (simp only: out map_vehicle_id_rank_rows set_group_keys)
qed

text \<open>
  Claim C9. With no removal filter and a table of detected events (at least one event, with
  the columns \<open>vehicle_id\<close> and \<open>time_loss_estimate\<close>), the simulator returns a result for
  all the vehicles with lap times, and the loss it subtracts from a vehicle's total is the sum
  of the \<open>time_loss_estimate\<close> of all the events of that vehicle.
\<close>

theorem default_removes_every_event:
  assumes srt: "sorts_by_adj_total_time srt"
      and lt: "''vehicle_id'' \<in> set (columns lap_times)" "''lap_time_seconds'' \<in> set (columns lap_times)"
      and ev: "\<not> empty event_detection" "''vehicle_id'' \<in> set (columns event_detection)"
              "''time_loss_estimate'' \<in> set (columns event_detection)"
  shows "\<exists>out. simulate_no_events srt lap_times event_detection None results_df = Inr (SimFrame out)
           \<and> set (map vehicle_id out)
               = {v. \<exists>r \<in> set (rows lap_times). strs r ''vehicle_id'' = Some v}
           \<and> (\<forall>r \<in> set out.
                 total_event_loss r
                   = nansum (map (\<lambda>e. floats e ''time_loss_estimate'')
                               (filter (\<lambda>e. strs e ''vehicle_id'' = Some (vehicle_id r))
                                  (rows event_detection)))
                 \<and> adj_total_time r = real_total_time r - total_event_loss r)"
proof -
  have kept: "events_kept event_detection None = Inr event_detection"
    using ev(1) by (simp add: events_kept_def)
  have losses: "event_losses event_detection
                  = Some (groupby_sum ''vehicle_id'' ''time_loss_estimate'' event_detection)"
    using ev by (simp add: event_losses_def)
  obtain out where run:
    "simulate_no_events srt lap_times event_detection None results_df = Inr (SimFrame out)"
    using lt kept losses by (simp add: simulate_no_events_def totals_frame_def)
  have "total_event_loss r = group_sum ''vehicle_id'' ''time_loss_estimate'' event_detection (vehicle_id r)
        \<and> adj_total_time r = real_total_time r - total_event_loss r" if "r \<in> set out" for r
  proof -
    from sim_row_facts[OF srt run that] obtain kept' losses' where
      f: "events_kept event_detection None = Inr kept'" "event_losses kept' = Some losses'"
         "total_event_loss r = (case map_of losses' (vehicle_id r) of None \<Rightarrow> 0 | Some l \<Rightarrow> l)"
         "adj_total_time r = real_total_time r - total_event_loss r"
      by blast
    from f(1,2) kept losses
    have "losses' = groupby_sum ''vehicle_id'' ''time_loss_estimate'' event_detection" by simp
    with f(3,4) show ?thesis by (simp add: loss_lookup)
  qed
  then show ?thesis
    using run result_vehicles[OF srt run] by (auto simp: group_sum_def)
qed

theorem default_removes_every_event_witness:
  "sorts_by_adj_total_time (sort_key adj_total_time)
   \<and> ''vehicle_id'' \<in> set (columns scenario4_laps)
   \<and> ''lap_time_seconds'' \<in> set (columns scenario4_laps)
   \<and> \<not> empty scenario4_events
   \<and> ''vehicle_id'' \<in> set (columns scenario4_events)
   \<and> ''time_loss_estimate'' \<in> set (columns scenario4_events)
   \<and> (\<exists>out. simulate_no_events (sort_key adj_total_time) scenario4_laps scenario4_events None
                 (Some scenario4_results) = Inr (SimFrame out)
         \<and> set (map vehicle_id out) = {''A'', ''C''}
         \<and> (\<forall>r \<in> set out.
               total_event_loss r = (if vehicle_id r = ''A'' then 10 else 0)
               \<and> adj_total_time r = real_total_time r - total_event_loss r))"
proof -
  have h: "''vehicle_id'' \<in> set (columns scenario4_laps)"
      "''lap_time_seconds'' \<in> set (columns scenario4_laps)"
      "\<not> empty scenario4_events"
      "''vehicle_id'' \<in> set (columns scenario4_events)"
      "''time_loss_estimate'' \<in> set (columns scenario4_events)"
    by (simp_all add: scenario4_laps_def scenario4_events_def empty_def)
  have vs: "{v. \<exists>r \<in> set (rows scenario4_laps). strs r ''vehicle_id'' = Some v} = {''A'', ''C''}"
    by (auto simp: scenario4_laps_def lap_row_def)
  have loss: "nansum (map (\<lambda>e. floats e ''time_loss_estimate'')
                 (filter (\<lambda>e. strs e ''vehicle_id'' = Some v) (rows scenario4_events)))
              = (if v = ''A'' then 10 else 0)" for v
    by (simp add: scenario4_events_def event_row_def nansum_def)
  from default_removes_every_event[OF sort_key_sorts h, of "Some scenario4_results"]
  show ?thesis using h sort_key_sorts unfolding vs loss by blast
qed

text \<open>
  In a result of the simulator, a vehicle none of whose events is left by the removal filter
  has a loss of 0 and an adjusted total time equal to its real total time, the sum of its lap
  times; and the position change of a vehicle is its real position, as the results table
  gives it, minus its adjusted position (missing when the real position is).
\<close>

lemma untouched_vehicle_keeps_time:
  assumes srt: "sorts_by_adj_total_time srt"
      and run: "simulate_no_events srt lap_times event_detection events_to_remove results_df
                  = Inr (SimFrame out)"
      and r: "r \<in> set out"
      and none: "removed_events_of event_detection events_to_remove (vehicle_id r) = []"
  shows "total_event_loss r = 0
       \<and> adj_total_time r = real_total_time r
       \<and> real_total_time r
           = nansum (map (\<lambda>l. floats l ''lap_time_seconds'')
                       (filter (\<lambda>l. strs l ''vehicle_id'' = Some (vehicle_id r)) (rows lap_times)))
       \<and> real_position r = real_position_of results_df (vehicle_id r)
       \<and> position_change r = map_option (\<lambda>p. p - real (adj_position r)) (real_position r)"
proof -
  from sim_row_facts[OF srt run r] obtain kept losses where
    f: "events_kept event_detection events_to_remove = Inr kept" "event_losses kept = Some losses"
       "real_total_time r = group_sum ''vehicle_id'' ''lap_time_seconds'' lap_times (vehicle_id r)"
       "total_event_loss r = (case map_of losses (vehicle_id r) of None \<Rightarrow> 0 | Some l \<Rightarrow> l)"
       "adj_total_time r = real_total_time r - total_event_loss r"
       "real_position r = real_position_of results_df (vehicle_id r)"
       "position_change r = map_option (\<lambda>p. p - real (adj_position r)) (real_position r)"
    by blast
  from none f(1) have nil: "filter (\<lambda>e. strs e ''vehicle_id'' = Some (vehicle_id r)) (rows kept) = []"
    by (simp add: removed_events_of_def)
  then have zero: "group_sum ''vehicle_id'' c kept (vehicle_id r) = 0" for c
    by (simp add: group_sum_def nansum_def)
  from f(2) have "losses = groupby_sum ''vehicle_id'' ''time_loss_estimate'' kept
                  \<or> losses = groupby_sum ''vehicle_id'' ''time_loss'' kept \<or> losses = []"
    by (auto simp: event_losses_def split: if_splits)
  then have "(case map_of losses (vehicle_id r) of None \<Rightarrow> 0 | Some l \<Rightarrow> l) = 0"
    using zero by (auto simp: loss_lookup)
  with f show ?thesis by (simp add: group_sum_def)
qed

text \<open>A removal filter without rows never gets a result from the simulator.\<close>

lemma empty_filter_never_returns:
  assumes "rows events_to_remove = []"
  shows "simulate_no_events srt lap_times event_detection (Some events_to_remove) results_df
           \<noteq> Inr (SimFrame out)"
proof
  assume run: "simulate_no_events srt lap_times event_detection (Some events_to_remove) results_df
                 = Inr (SimFrame out)"
  from run obtain ev losses where
    kept: "events_kept event_detection (Some events_to_remove) = Inr ev"
    and losses: "event_losses ev = Some losses"
    by (rule simulate_result)
  from kept assms have "rows ev = []"
    by (auto simp: events_kept_def Let_def merge_inner_def empty_def split: if_splits)
  with losses show False by (simp add: event_losses_def empty_def)
qed

text \<open>
  Claim C2 fails on the code. With a removal filter that selects nothing no event is left,
  line 68 makes the series of losses without a name, and the join on line 71 raises
  \<open>ValueError\<close>: the simulator returns no result, where the claim has it return the real
  times. It does so with an event of \<open>A\<close> detected and with no event detected at all.
\<close>

theorem empty_filter_raises:
  "rows empty_filter = []
   \<and> simulate_no_events (sort_key adj_total_time) scenario4_laps scenario4_events
        (Some empty_filter) (Some scenario4_results) = Inl ValueError
   \<and> simulate_no_events (sort_key adj_total_time) scenario4_laps scenario4_events
        (Some empty_filter) None = Inl ValueError
   \<and> simulate_no_events (sort_key adj_total_time) scenario4_laps no_events
        (Some empty_filter) (Some scenario4_results) = Inl ValueError"
  by code_simp

text \<open>
  In scenario 4 with the lockup of \<open>A\<close> removed, \<open>C\<close> keeps its 355 s and goes from the
  first place of the results to the second.
\<close>

lemma untouched_vehicle_in_scenario4:
  "sorts_by_adj_total_time (sort_key adj_total_time)
   \<and> (\<exists>a c. simulate_no_events (sort_key adj_total_time) scenario4_laps scenario4_events
                (Some scenario4_events) (Some scenario4_results) = Inr (SimFrame [a, c])
        \<and> c \<in> set [a, c]
        \<and> vehicle_id c = ''C''
        \<and> removed_events_of scenario4_events (Some scenario4_events) (vehicle_id c) = []
        \<and> total_event_loss c = 0 \<and> adj_total_time c = 355 \<and> real_total_time c = 355
        \<and> real_position c = Some 1 \<and> adj_position c = 2 \<and> position_change c = Some (- 1))"
proof -
  define a where "a = \<lparr>vehicle_id = ''A'', real_total_time = 360, total_event_loss = 10,
           adj_total_time = 350, adj_position = 1, real_position = Some 2,
           position_change = Some 1\<rparr>"
  define c where "c = \<lparr>vehicle_id = ''C'', real_total_time = 355, total_event_loss = 0,
           adj_total_time = 355, adj_position = 2, real_position = Some 1,
           position_change = Some (- 1)\<rparr>"
  have run: "simulate_no_events (sort_key adj_total_time) scenario4_laps scenario4_events
                (Some scenario4_events) (Some scenario4_results) = Inr (SimFrame [a, c])"
    unfolding a_def c_def by code_simp
  have mem: "c \<in> set [a, c]" by simp
  have vid: "vehicle_id c = ''C''" by (simp add: c_def)
  have none: "removed_events_of scenario4_events (Some scenario4_events) (vehicle_id c) = []"
    unfolding vid by code_simp
  have vals: "adj_position c = 2" "real_total_time c = 355" "real_position c = Some 1"
    by (simp_all add: c_def)
  from untouched_vehicle_keeps_time[OF sort_key_sorts run mem none] vals
  have "total_event_loss c = 0" "adj_total_time c = 355" "position_change c = Some (- 1)"
    by simp_all
  with run mem vid none vals sort_key_sorts show ?thesis by blast
qed

section \<open>The key events\<close>

lemma descending_key_le: "descending_key x \<le> descending_key y \<longleftrightarrow> at_least x y"
  by (auto simp: descending_key_def at_least_def less_eq_prod_def split: option.splits)

lemma descending_key_eq: "descending_key x = descending_key y \<longleftrightarrow> x = y"
  by (auto simp: descending_key_def split: option.splits)

lemma at_least_refl: "at_least x x"
  by (simp add: at_least_def split: option.splits)

lemma severity_key_le:
  "(descending_key (severity_score_of a), descending_key (time_loss_estimate_of a))
     \<le> (descending_key (severity_score_of b), descending_key (time_loss_estimate_of b))
   \<longleftrightarrow> not_behind a b"
  unfolding not_behind_def less_eq_prod_def[of "(descending_key (severity_score_of a), descending_key (time_loss_estimate_of a))"]
  by (auto simp: descending_key_le descending_key_eq less_le at_least_refl)

lemma mset_sort_by_severity: "mset (sort_by_severity rs) = mset rs"
  by (simp add: sort_by_severity_def)

lemma sort_by_severity_descending:
  assumes "i < j" "j < length (sort_by_severity rs)"
  shows "not_behind (sort_by_severity rs ! i) (sort_by_severity rs ! j)"
proof -
  let ?k = "\<lambda>r. (descending_key (severity_score_of r), descending_key (time_loss_estimate_of r))"
  have "sorted (map ?k (sort_by_severity rs))"
    by (simp add: sort_by_severity_def)
  then have "?k (sort_by_severity rs ! i) \<le> ?k (sort_by_severity rs ! j)"
    using assms by (simp add: sorted_iff_nth_mono)
  then show ?thesis by (simp only: severity_key_le)
qed

lemma sort_by_severity_stable:
  "filter (\<lambda>r. severity_score_of r = s \<and> time_loss_estimate_of r = t) (sort_by_severity rs)
     = filter (\<lambda>r. severity_score_of r = s \<and> time_loss_estimate_of r = t) rs"
proof -
  let ?k = "\<lambda>r. (descending_key (severity_score_of r), descending_key (time_loss_estimate_of r))"
  have eq: "(\<lambda>r. severity_score_of r = s \<and> time_loss_estimate_of r = t)
            = (\<lambda>r. ?k r = (descending_key s, descending_key t))"
    by (auto simp: descending_key_eq)
  show ?thesis unfolding eq sort_by_severity_def by (rule sort_key_stable)
qed

text \<open>
  Claim C6. For an events table with the two sort columns, the key events are taken from
  the events sorted in descending order of severity and then of time loss: the sorted list
  is a rearrangement of the events, no event is behind a later one in that order, and the
  events tied on both keys keep their order of detection. Of the six events at the head the
  first is labelled \<open>race_turning_point\<close> and the next up to three \<open>major_mistake\<close>.
\<close>

theorem key_events_selection:
  assumes "''severity_score'' \<in> set (columns events)"
      and "''time_loss_estimate'' \<in> set (columns events)"
  shows "\<exists>evs_sorted keys.
           mset evs_sorted = mset (rows events)
         \<and> (\<forall>i j. i < j \<and> j < length evs_sorted \<longrightarrow> not_behind (evs_sorted ! i) (evs_sorted ! j))
         \<and> (\<forall>s t. filter (\<lambda>r. severity_score_of r = s \<and> time_loss_estimate_of r = t) evs_sorted
                  = filter (\<lambda>r. severity_score_of r = s \<and> time_loss_estimate_of r = t) (rows events))
         \<and> race_key_events events = Inr keys
         \<and> length keys = min 4 (length (rows events))
         \<and> (\<forall>i < length keys.
               keys ! i = (event_to_object (columns events, take 6 evs_sorted ! i))
                            \<lparr>obj_role := Some (if i = 0 then ''race_turning_point''
                                                else ''major_mistake'')\<rparr>)"
proof -
  define evs_sorted where "evs_sorted = sort_by_severity (rows events)"
  define topn where "topn = take 6 evs_sorted"
  define keys where "keys =
     (if length topn > 0
      then (event_to_object (columns events, topn ! 0))\<lparr>obj_role := Some ''race_turning_point''\<rparr>
           # map (\<lambda>i. (event_to_object (columns events, topn ! i))\<lparr>obj_role := Some ''major_mistake''\<rparr>)
                 [1..<min 4 (length topn)]
      else [])"
  have len_sorted: "length evs_sorted = length (rows events)"
    unfolding evs_sorted_def using mset_sort_by_severity by (metis size_mset)
  have len_topn: "length topn = min 6 (length (rows events))"
    by (simp add: topn_def len_sorted min.commute)
  have cols: "columns events \<noteq> []" using assms(1) by auto
  have run: "race_key_events events = Inr keys"
  proof (cases "rows events = []")
    case True
    then have "keys = []" by (simp add: keys_def len_topn)
    with True show ?thesis by (simp add: race_key_events_def empty_def)
  next
    case False
    then show ?thesis
      using assms cols
      by (simp add: race_key_events_def empty_def Let_def keys_def topn_def evs_sorted_def)
  qed
  have len_keys: "length keys = min 4 (length (rows events))"
    by (auto simp: keys_def len_topn)
  have nth_keys: "keys ! i = (event_to_object (columns events, topn ! i))
                    \<lparr>obj_role := Some (if i = 0 then ''race_turning_point'' else ''major_mistake'')\<rparr>"
    if "i < length keys" for i
  proof (cases i)
    case 0
    with that show ?thesis by (auto simp: keys_def split: if_splits)
  next
    case (Suc k)
    from that have pos: "length topn > 0" by (auto simp: keys_def split: if_splits)
    have "i < min 4 (length (rows events))" using that len_keys by simp
    with Suc len_topn have k: "1 + k < min 4 (length topn)"
      by (auto simp: min_def split: if_splits)
    then have "[1..<min 4 (length topn)] ! k = 1 + k"
      by (rule nth_upt)
    moreover have "k < length [1..<min 4 (length topn)]"
      using k by (auto simp: min_def split: if_splits)
    ultimately have "map (\<lambda>i. (event_to_object (columns events, topn ! i))\<lparr>obj_role := Some ''major_mistake''\<rparr>)
                 [1..<min 4 (length topn)] ! k
               = (event_to_object (columns events, topn ! (1 + k)))\<lparr>obj_role := Some ''major_mistake''\<rparr>"
      by (simp only: nth_map)
    with Suc pos show ?thesis by (simp add: keys_def)
  qed
  have "mset evs_sorted = mset (rows events)"
    by (simp add: evs_sorted_def mset_sort_by_severity)
  moreover have "\<forall>i j. i < j \<and> j < length evs_sorted \<longrightarrow> not_behind (evs_sorted ! i) (evs_sorted ! j)"
    unfolding evs_sorted_def using sort_by_severity_descending by blast
  moreover have "\<forall>s t. filter (\<lambda>r. severity_score_of r = s \<and> time_loss_estimate_of r = t) evs_sorted
                  = filter (\<lambda>r. severity_score_of r = s \<and> time_loss_estimate_of r = t) (rows events)"
    unfolding evs_sorted_def using sort_by_severity_stable by blast
  ultimately show ?thesis
    using run len_keys nth_keys unfolding topn_def by blast
qed

theorem key_events_selection_witness:
  "''severity_score'' \<in> set (columns catalog_events)
   \<and> ''time_loss_estimate'' \<in> set (columns catalog_events)
   \<and> (\<exists>evs_sorted keys.
           mset evs_sorted = mset (rows catalog_events)
         \<and> (\<forall>i j. i < j \<and> j < length evs_sorted \<longrightarrow> not_behind (evs_sorted ! i) (evs_sorted ! j))
         \<and> (\<forall>s t. filter (\<lambda>r. severity_score_of r = s \<and> time_loss_estimate_of r = t) evs_sorted
                  = filter (\<lambda>r. severity_score_of r = s \<and> time_loss_estimate_of r = t)
                      (rows catalog_events))
         \<and> race_key_events catalog_events = Inr keys
         \<and> length keys = min 4 (length (rows catalog_events))
         \<and> (\<forall>i < length keys.
               keys ! i = (event_to_object (columns catalog_events, take 6 evs_sorted ! i))
                            \<lparr>obj_role := Some (if i = 0 then ''race_turning_point''
                                                else ''major_mistake'')\<rparr>))
   \<and> (case race_key_events catalog_events of
         Inl e \<Rightarrow> False
       | Inr keys \<Rightarrow>
           map obj_vehicle_id keys = [Some ''D'', Some ''B'', Some ''A'', Some ''C'']
           \<and> map obj_role keys = [Some ''race_turning_point'', Some ''major_mistake'',
                                    Some ''major_mistake'', Some ''major_mistake''])"
proof -
  have h1: "''severity_score'' \<in> set (columns catalog_events)"
    and h2: "''time_loss_estimate'' \<in> set (columns catalog_events)"
    by (simp_all add: catalog_events_def)
  have run: "(case race_key_events catalog_events of
         Inl e \<Rightarrow> False
       | Inr keys \<Rightarrow>
           map obj_vehicle_id keys = [Some ''D'', Some ''B'', Some ''A'', Some ''C'']
           \<and> map obj_role keys = [Some ''race_turning_point'', Some ''major_mistake'',
                                    Some ''major_mistake'', Some ''major_mistake''])"
    by code_simp
  from key_events_selection[OF h1 h2] h1 h2 run show ?thesis by (intro conjI)
qed

section \<open>The event detector\<close>

lemma fgt_Some: "fgt a c \<longleftrightarrow> (\<exists>x. a = Some x \<and> c < x)"
  by (auto simp: fgt_def fless_def split: option.splits)

lemma flt_Some: "flt a c \<longleftrightarrow> (\<exists>x. a = Some x \<and> x < c)"
  by (auto simp: flt_def fless_def split: option.splits)

lemma fsub_Some: "fsub a b = Some z \<longleftrightarrow> (\<exists>x y. a = Some x \<and> b = Some y \<and> z = x - y)"
  by (auto simp: fsub_def split: option.splits)

lemma fabs_Some: "fabs a = Some z \<longleftrightarrow> (\<exists>x. a = Some x \<and> z = \<bar>x\<bar>)"
  by (auto simp: fabs_def)

lemma min1_Some: "min1 (Some v) = Some (min 1 v)"
  by (simp add: min1_def flt_Some min_def)

lemma nanmean3: "nanmean [Some a, Some b, Some c] = Some ((a + b + c) / 3)"
  by (simp add: nanmean_def List.map_filter_def)

lemma or0_Some: "or0 (Some x) = Some x"
  by (simp add: or0_def)

lemma notna_Some: "notna (Some x)"
  by (simp add: notna_def)

lemma lockup_iff:
  "lockup vid lap s0 s2 s3 \<noteq> None \<longleftrightarrow>
     fgt (fsub (pbrake_f s0) (pbrake_f s2)) 10 \<and> fgt (fsub (speed s3) (speed s0)) 6
     \<and> fgt (fsub (accy_can s3) (accy_can s0)) 0.3"
  by (auto simp: lockup_def Let_def notna_def fgt_Some fsub_Some)

lemma lockup_event:
  assumes "lockup vid lap s0 s2 s3 = Some ev"
  shows "\<exists>b v g. fsub (pbrake_f s0) (pbrake_f s2) = Some b \<and> 10 < b
           \<and> fsub (speed s3) (speed s0) = Some v \<and> 6 < v
           \<and> fsub (accy_can s3) (accy_can s0) = Some g \<and> 0.3 < g
           \<and> event_type ev = ''lockup''
           \<and> severity_score ev = Some (min 1 ((b / 50 + v / 10 + g / 2) / 3))
           \<and> time_loss_estimate ev = Some (v / 9)"
proof -
  from assms have "lockup vid lap s0 s2 s3 \<noteq> None" by simp
  then obtain b v g where
    b: "fsub (pbrake_f s0) (pbrake_f s2) = Some b" "10 < b"
    and v: "fsub (speed s3) (speed s0) = Some v" "6 < v"
    and g: "fsub (accy_can s3) (accy_can s0) = Some g" "0.3 < g"
    unfolding lockup_iff fgt_Some by blast
  have na: "notna (pbrake_f s0)" "notna (pbrake_f s2)" "notna (speed s3)" "notna (speed s0)"
      "notna (accy_can s3)" "notna (accy_can s0)"
    using b v g by (auto simp: notna_def fsub_Some)
  have cond: "fgt (Some b) 10" "fgt (Some v) 6" "fgt (Some g) 0.3"
    using b v g by (simp_all add: fgt_Some)
  have "ev = \<lparr>event_id = Lap_ident (vid_text vid) lap (timestamp s0),
                     ev_vehicle_id = vid,
                     ev_lap = lap,
                     ev_timestamp = timestamp s0,
                     event_type = ''lockup'',
                     severity_score =
                       min1 (nanmean [fdiv (fabs (Some b)) 50,
                                      fdiv (or0 (Some v)) 10, fdiv (or0 (Some g)) 2]),
                     time_loss_estimate = fdiv (Some v) 9,
                     steering_correction_deg = (if notna (Steering_Angle s0) \<and> notna (Steering_Angle s2)
                              then fabs (fsub (Steering_Angle s0) (Steering_Angle s2)) else None),
                     brake_spike = True,
                     speed_loss = Some v,
                     latG_spike = Some g,
                     rpm_drop = None\<rparr>"
    using assms unfolding lockup_def Let_def b v g
    by (simp add: na cond notna_Some)
  moreover have "\<bar>b\<bar> = b" using b(2) by simp
  ultimately show ?thesis
    using b v g by (simp add: fabs_def fdiv_def or0_Some nanmean3 min1_Some)
qed


lemma sample_events_lockup:
  assumes "length (filter (\<lambda>s. timestamp s = timestamp (df ! i)) df) = 1"
  shows "(\<exists>ev \<in> set (sample_events vid lap df i). event_type ev = ''lockup'')
           \<longleftrightarrow> lockup vid lap (df ! i) (df ! (i - 2)) (df ! (i - 3)) \<noteq> None"
proof (cases "lockup vid lap (df ! i) (df ! (i - 2)) (df ! (i - 3))")
  case (Some ev)
  then have "sample_events vid lap df i = [ev]"
    using assms by (simp add: sample_events_def Let_def)
  moreover have "event_type ev = ''lockup''"
    using lockup_event[OF Some] by blast
  ultimately show ?thesis using Some by simp
next
  case None
  have "event_type ev \<noteq> ''lockup''" if "ev \<in> set (sample_events vid lap df i)" for ev
    using that None assms
    by (auto simp: sample_events_def Let_def near_spin_def understeer_def missed_shift_def
             split: option.splits if_splits)
  with None show ?thesis by auto
qed

lemma sample_events_fields:
  assumes "ev \<in> set (sample_events vid lap df i)"
  shows "ev_vehicle_id ev = vid \<and> ev_lap ev = lap \<and> ev_timestamp ev = timestamp (df ! i)"
  using assms
  by (auto simp: sample_events_def Let_def lockup_def near_spin_def understeer_def missed_shift_def
           split: if_splits option.splits)

lemma lap_events_iff:
  "ev \<in> set (lap_events vid lap df)
     \<longleftrightarrow> (\<exists>j. 3 \<le> j \<and> j < length df \<and> ev \<in> set (sample_events vid lap df j))"
  by (auto simp: lap_events_def)

lemma filter_two_positions:
  assumes "i < length xs" "j < length xs" "i \<noteq> j" "P (xs ! i)" "P (xs ! j)"
  shows "2 \<le> length (filter P xs)"
proof -
  have "{i, j} \<subseteq> {k. k < length xs \<and> P (xs ! k)}" using assms by auto
  then have "card {i, j} \<le> card {k. k < length xs \<and> P (xs ! k)}"
    by (intro card_mono) auto
  then show ?thesis using assms(3) by (simp add: length_filter_conv_card)
qed

lemma unique_timestamp_position:
  assumes "length (filter (\<lambda>s. timestamp s = timestamp (df ! i)) df) = 1"
      and "i < length df" "j < length df" "timestamp (df ! j) = timestamp (df ! i)"
  shows "j = i"
proof (rule ccontr)
  assume "j \<noteq> i"
  then have "2 \<le> length (filter (\<lambda>s. timestamp s = timestamp (df ! i)) df)"
    using filter_two_positions[of i df j "\<lambda>s. timestamp s = timestamp (df ! i)"] assms by auto
  with assms(1) show False by simp
qed

lemma telemetry_loop_iff:
  assumes "telemetry_loop sort_index laps_dir rs = Inr evs"
  shows "ev \<in> set evs \<longleftrightarrow>
           (\<exists>r \<in> set rs. \<exists>l df. floats r ''lap'' = Some l
              \<and> find_lap_file laps_dir (vid_text (strs r ''vehicle_id'')) (py_int l) = Some df
              \<and> ev \<in> set (lap_events (strs r ''vehicle_id'') (py_int l) (sort_index df)))"
  using assms
proof (induction rs arbitrary: evs)
  case Nil
  then show ?case by simp
next
  case (Cons r rs)
  from Cons.prems obtain l later where
    l: "floats r ''lap'' = Some l"
    and later: "telemetry_loop sort_index laps_dir rs = Inr later"
    and evs: "evs = (case find_lap_file laps_dir (vid_text (strs r ''vehicle_id'')) (py_int l) of
                       None \<Rightarrow> []
                     | Some df \<Rightarrow> lap_events (strs r ''vehicle_id'') (py_int l) (sort_index df)) @ later"
    by (auto simp: Let_def split: option.splits sum.splits)
  show ?case
    unfolding evs using Cons.IH[OF later] l
    by (auto split: option.splits)
qed


lemma detect_telemetry_events_iff:
  assumes "detect_telemetry_events sort_index laps_dir per_lap = Inr evs"
  shows "ev \<in> set evs \<longleftrightarrow>
           (\<exists>r \<in> set (rows per_lap). \<exists>l df. floats r ''lap'' = Some l
              \<and> find_lap_file laps_dir (vid_text (strs r ''vehicle_id'')) (py_int l) = Some df
              \<and> ev \<in> set (lap_events (strs r ''vehicle_id'') (py_int l) (sort_index df)))"
proof (cases "rows per_lap = []")
  case True
  with assms show ?thesis by (simp add: detect_telemetry_events_def)
next
  case False
  with assms have "telemetry_loop sort_index laps_dir (rows per_lap) = Inr evs"
    by (auto simp: detect_telemetry_events_def split: if_splits)
  from telemetry_loop_iff[OF this] show ?thesis .
qed

text \<open>
  Claim C3, amended. Take a lap of the per-lap table whose file is found, and a sample of
  it from the fourth on (in the order of time) whose timestamp no other sample of the lap has.
  Whenever the detector returns, its output has a lockup event for that vehicle, lap and
  timestamp exactly when the front brake pressure rose by more than 10 over the 2 samples
  before, the speed dropped by more than 6 over the 3 samples before and the lateral G
  dropped by more than 0.3 over the 3 samples before. Lockup is tried first: when the three
  conditions hold, every event of that vehicle, lap and timestamp is a lockup. The severity of
  the lockup is the mean of the brake rise over 50, the speed loss over 10 and the lateral-G
  drop over 2, capped at 1, and its time loss the speed loss over 9.
\<close>

theorem lockup_rule:
  assumes run: "detect_telemetry_events sort_index laps_dir per_lap = Inr evs"
      and r: "r \<in> set (rows per_lap)" "floats r ''lap'' = Some l"
      and found: "find_lap_file laps_dir (vid_text (strs r ''vehicle_id'')) (py_int l) = Some samples"
      and df: "df = sort_index samples"
      and i: "3 \<le> i" "i < length df"
      and uniq: "length (filter (\<lambda>s. timestamp s = timestamp (df ! i)) df) = 1"
  shows "((\<exists>ev \<in> set evs. event_type ev = ''lockup'' \<and> ev_vehicle_id ev = strs r ''vehicle_id''
              \<and> ev_lap ev = py_int l \<and> ev_timestamp ev = timestamp (df ! i))
            \<longleftrightarrow> fgt (brake_rise df i) 10 \<and> fgt (speed_drop df i) 6 \<and> fgt (latG_drop df i) 0.3)
       \<and> (\<forall>ev \<in> set evs. ev_vehicle_id ev = strs r ''vehicle_id'' \<and> ev_lap ev = py_int l
              \<and> ev_timestamp ev = timestamp (df ! i) \<longrightarrow>
             (fgt (brake_rise df i) 10 \<and> fgt (speed_drop df i) 6 \<and> fgt (latG_drop df i) 0.3
                \<longrightarrow> event_type ev = ''lockup'')
             \<and> (event_type ev = ''lockup'' \<longrightarrow>
                  (\<exists>b v g. brake_rise df i = Some b \<and> speed_drop df i = Some v
                     \<and> latG_drop df i = Some g
                     \<and> severity_score ev = Some (min 1 ((b / 50 + v / 10 + g / 2) / 3))
                     \<and> time_loss_estimate ev = Some (v / 9))))"
proof -
  define vid where "vid = strs r ''vehicle_id''"
  define lap where "lap = py_int l"
  let ?conds = "fgt (brake_rise df i) 10 \<and> fgt (speed_drop df i) 6 \<and> fgt (latG_drop df i) 0.3"
  have conds_iff: "?conds \<longleftrightarrow> lockup vid lap (df ! i) (df ! (i - 2)) (df ! (i - 3)) \<noteq> None"
    unfolding lockup_iff brake_rise_def speed_drop_def latG_drop_def by (rule refl)
  have here: "ev \<in> set evs" if "ev \<in> set (sample_events vid lap df i)" for ev
  proof -
    from that i have "ev \<in> set (lap_events vid lap df)"
      using lap_events_iff by blast
    then have "\<exists>r \<in> set (rows per_lap). \<exists>l df. floats r ''lap'' = Some l
              \<and> find_lap_file laps_dir (vid_text (strs r ''vehicle_id'')) (py_int l) = Some df
              \<and> ev \<in> set (lap_events (strs r ''vehicle_id'') (py_int l) (sort_index df))"
      using r found by (auto simp: vid_def lap_def df)
    then show ?thesis
      using detect_telemetry_events_iff[OF run, of ev] by simp
  qed
  have there: "ev \<in> set (sample_events vid lap df i)"
    if ev: "ev \<in> set evs" "ev_vehicle_id ev = vid" "ev_lap ev = lap"
       "ev_timestamp ev = timestamp (df ! i)" for ev
  proof -
    from ev(1) have "\<exists>r' \<in> set (rows per_lap). \<exists>l' df'. floats r' ''lap'' = Some l'
              \<and> find_lap_file laps_dir (vid_text (strs r' ''vehicle_id'')) (py_int l') = Some df'
              \<and> ev \<in> set (lap_events (strs r' ''vehicle_id'') (py_int l') (sort_index df'))"
      using detect_telemetry_events_iff[OF run, of ev] by simp
    then obtain r' :: row and l' df' where
      r': "floats r' ''lap'' = Some l'"
          "find_lap_file laps_dir (vid_text (strs r' ''vehicle_id'')) (py_int l') = Some df'"
          "ev \<in> set (lap_events (strs r' ''vehicle_id'') (py_int l') (sort_index df'))"
      by auto
    from r'(3) have "\<exists>j. 3 \<le> j \<and> j < length (sort_index df')
         \<and> ev \<in> set (sample_events (strs r' ''vehicle_id'') (py_int l') (sort_index df') j)"
      using lap_events_iff by simp
    then obtain j where
      j: "3 \<le> j" "j < length (sort_index df')"
         "ev \<in> set (sample_events (strs r' ''vehicle_id'') (py_int l') (sort_index df') j)"
      by auto
    from sample_events_fields[OF j(3)] ev(2,3)
    have same: "strs r' ''vehicle_id'' = vid" "py_int l' = lap"
      and ts: "ev_timestamp ev = timestamp (sort_index df' ! j)"
      by simp_all
    from r'(2) found same have "df' = samples" by (simp add: vid_def lap_def)
    then have dfeq: "sort_index df' = df" by (simp add: df)
    from ts ev(4) have "timestamp (df ! j) = timestamp (df ! i)" by (simp add: dfeq)
    from unique_timestamp_position[OF uniq i(2) _ this] j(2) have "j = i" by (simp add: dfeq)
    with j(3) same dfeq show ?thesis by simp
  qed
  have a: "(\<exists>ev \<in> set evs. event_type ev = ''lockup'' \<and> ev_vehicle_id ev = vid
              \<and> ev_lap ev = lap \<and> ev_timestamp ev = timestamp (df ! i)) \<longleftrightarrow> ?conds"
  proof
    assume "\<exists>ev \<in> set evs. event_type ev = ''lockup'' \<and> ev_vehicle_id ev = vid
              \<and> ev_lap ev = lap \<and> ev_timestamp ev = timestamp (df ! i)"
    then obtain ev where ev: "ev \<in> set evs" "event_type ev = ''lockup''" "ev_vehicle_id ev = vid"
        "ev_lap ev = lap" "ev_timestamp ev = timestamp (df ! i)" by blast
    from there[OF ev(1,3,4,5)] ev(2)
    have "\<exists>ev \<in> set (sample_events vid lap df i). event_type ev = ''lockup''" by blast
    then show ?conds
      unfolding sample_events_lockup[OF uniq] conds_iff .
  next
    assume ?conds
    then have "\<exists>ev \<in> set (sample_events vid lap df i). event_type ev = ''lockup''"
      unfolding sample_events_lockup[OF uniq] conds_iff .
    then obtain ev where ev: "ev \<in> set (sample_events vid lap df i)" "event_type ev = ''lockup''"
      by blast
    from here[OF ev(1)] sample_events_fields[OF ev(1)] ev(2)
    show "\<exists>ev \<in> set evs. event_type ev = ''lockup'' \<and> ev_vehicle_id ev = vid
              \<and> ev_lap ev = lap \<and> ev_timestamp ev = timestamp (df ! i)"
      by blast
  qed
  have b: "(?conds \<longrightarrow> event_type ev = ''lockup'')
             \<and> (event_type ev = ''lockup'' \<longrightarrow>
                  (\<exists>b v g. brake_rise df i = Some b \<and> speed_drop df i = Some v
                     \<and> latG_drop df i = Some g
                     \<and> severity_score ev = Some (min 1 ((b / 50 + v / 10 + g / 2) / 3))
                     \<and> time_loss_estimate ev = Some (v / 9)))"
    if ev: "ev \<in> set evs" "ev_vehicle_id ev = vid" "ev_lap ev = lap"
       "ev_timestamp ev = timestamp (df ! i)" for ev
  proof -
    have mem: "ev \<in> set (sample_events vid lap df i)" using there[OF ev] .
    have first: "event_type ev = ''lockup''" if ?conds
    proof -
      from that obtain ev' where ev': "lockup vid lap (df ! i) (df ! (i - 2)) (df ! (i - 3)) = Some ev'"
        unfolding conds_iff by auto
      then have "sample_events vid lap df i = [ev']"
        using uniq by (simp add: sample_events_def Let_def)
      with mem have "ev = ev'" by simp
      with lockup_event[OF ev'] show ?thesis by blast
    qed
    have second: "\<exists>b v g. brake_rise df i = Some b \<and> speed_drop df i = Some v
                     \<and> latG_drop df i = Some g
                     \<and> severity_score ev = Some (min 1 ((b / 50 + v / 10 + g / 2) / 3))
                     \<and> time_loss_estimate ev = Some (v / 9)" if "event_type ev = ''lockup''"
    proof -
      from mem that have "lockup vid lap (df ! i) (df ! (i - 2)) (df ! (i - 3)) \<noteq> None"
        using sample_events_lockup[OF uniq, of vid lap] by blast
      then obtain ev' where ev': "lockup vid lap (df ! i) (df ! (i - 2)) (df ! (i - 3)) = Some ev'"
        by auto
      then have "sample_events vid lap df i = [ev']"
        using uniq by (simp add: sample_events_def Let_def)
      with mem have "ev = ev'" by simp
      with lockup_event[OF ev'] show ?thesis
        unfolding brake_rise_def speed_drop_def latG_drop_def by blast
    qed
    from first second show ?thesis by blast
  qed
  from a b show ?thesis unfolding vid_def lap_def by blast
qed

lemma within_rangesI:
  "severity_score e = Some s \<Longrightarrow> 0 \<le> s \<Longrightarrow> s \<le> 1 \<Longrightarrow> time_loss_estimate e = Some t \<Longrightarrow> 0 \<le> t
     \<Longrightarrow> within_ranges e"
  by (simp add: within_ranges_def)

lemma lockup_range:
  assumes "lockup vid lap s0 s2 s3 = Some ev"
  shows "within_ranges ev"
proof -
  from lockup_event[OF assms] obtain b v g where
    f: "10 < b" "6 < v" "0.3 < g"
    and sev: "severity_score ev = Some (min 1 ((b / 50 + v / 10 + g / 2) / 3))"
    and tl: "time_loss_estimate ev = Some (v / 9)"
    by blast
  have "0 \<le> (b / 50 + v / 10 + g / 2) / 3" using f by simp
  then have lo: "0 \<le> min 1 ((b / 50 + v / 10 + g / 2) / 3)" by simp
  have hi: "min 1 ((b / 50 + v / 10 + g / 2) / 3) \<le> 1" by simp
  have tlo: "0 \<le> v / 9" using f(2) by simp
  show ?thesis by (rule within_rangesI[OF sev lo hi tl tlo])
qed

lemma near_spin_range:
  assumes "near_spin vid lap s0 s2 s3 = Some ev"
  shows "within_ranges ev"
proof -
  from assms obtain st a v where
    st: "fabs (fsub (Steering_Angle s0) (Steering_Angle s2)) = Some st" "20 < st"
    and a: "fsub (accy_can s0) (accy_can s3) = Some a" "1.5 < a"
    and v: "fsub (speed s3) (speed s0) = Some v" "4 < v"
    by (auto simp: near_spin_def Let_def fgt_Some split: if_splits)
  from assms have "severity_score ev = min1 (fdiv (fadd (fadd (fdiv (Some st) 40) (fdiv (Some a) 3))
                                        (fdiv (Some v) 10)) 3)"
    and "time_loss_estimate ev = fdiv (Some v) 9"
    unfolding near_spin_def Let_def st a v by (auto split: if_splits)
  then have sev: "severity_score ev = Some (min 1 ((st / 40 + a / 3 + v / 10) / 3))"
    and tl: "time_loss_estimate ev = Some (v / 9)"
    by (simp_all add: fdiv_def fadd_def min1_Some)
  have "0 \<le> (st / 40 + a / 3 + v / 10) / 3" using st(2) a(2) v(2) by simp
  then have lo: "0 \<le> min 1 ((st / 40 + a / 3 + v / 10) / 3)" by simp
  have hi: "min 1 ((st / 40 + a / 3 + v / 10) / 3) \<le> 1" by simp
  have tlo: "0 \<le> v / 9" using v(2) by simp
  show ?thesis by (rule within_rangesI[OF sev lo hi tl tlo])
qed

lemma understeer_range:
  assumes "understeer vid lap s0 s3 = Some ev"
  shows "within_ranges ev"
proof -
  from assms obtain d v where
    d: "fsub (Steering_Angle s0) (Steering_Angle s3) = Some d" "8 < d"
    and v: "fsub (speed s3) (speed s0) = Some v" "3 < v"
    by (auto simp: understeer_def Let_def fgt_Some split: if_splits)
  from assms have "severity_score ev = min1 (fdiv (fadd (fdiv (fabs (Some d)) 20)
                                                          (fdiv (or0 (Some v)) 10)) 2)"
    and "time_loss_estimate ev = (if notna (Some v) then fdiv (Some v) 9 else None)"
    unfolding understeer_def Let_def d v by (auto split: if_splits)
  then have sev: "severity_score ev = Some (min 1 ((\<bar>d\<bar> / 20 + v / 10) / 2))"
    and tl: "time_loss_estimate ev = Some (v / 9)"
    by (simp_all add: fdiv_def fadd_def fabs_def or0_Some min1_Some notna_Some)
  have "0 \<le> (\<bar>d\<bar> / 20 + v / 10) / 2" using v(2) by simp
  then have lo: "0 \<le> min 1 ((\<bar>d\<bar> / 20 + v / 10) / 2)" by simp
  have hi: "min 1 ((\<bar>d\<bar> / 20 + v / 10) / 2) \<le> 1" by simp
  have tlo: "0 \<le> v / 9" using v(2) by simp
  show ?thesis by (rule within_rangesI[OF sev lo hi tl tlo])
qed

lemma missed_shift_range:
  assumes "missed_shift vid lap s0 s1 = Some ev"
  shows "within_ranges ev"
proof -
  from assms obtain r where
    r: "fsub (nmot s1) (nmot s0) = Some r" "1200 < r"
    by (auto simp: missed_shift_def Let_def fgt_Some split: if_splits)
  from assms have "severity_score ev = min1 (fdiv (Some r) 4000)"
    and tl: "time_loss_estimate ev = Some 0.5"
    unfolding missed_shift_def Let_def r by (auto split: if_splits)
  then have sev: "severity_score ev = Some (min 1 (r / 4000))"
    by (simp add: fdiv_def min1_Some)
  have lo: "0 \<le> min 1 (r / 4000)" using r(2) by simp
  have hi: "min 1 (r / 4000) \<le> 1" by simp
  have tlo: "(0::real) \<le> 0.5" by simp
  show ?thesis by (rule within_rangesI[OF sev lo hi tl tlo])
qed

lemma sample_events_range:
  assumes "ev \<in> set (sample_events vid lap df i)"
  shows "within_ranges ev"
  using assms lockup_range near_spin_range understeer_range missed_shift_range
  by (fastforce simp: sample_events_def Let_def split: if_splits option.splits)

lemma lap_events_range:
  assumes "ev \<in> set (lap_events vid lap df)"
  shows "within_ranges ev"
  using assms sample_events_range by (auto simp: lap_events_def)

lemma telemetry_loop_range:
  assumes "telemetry_loop sort_index laps_dir rs = Inr evs" "ev \<in> set evs"
  shows "within_ranges ev"
  using assms
proof (induction rs arbitrary: evs)
  case Nil
  then show ?case by simp
next
  case (Cons r rs)
  from Cons.prems(1) obtain l later where
    l: "floats r ''lap'' = Some l"
    and later: "telemetry_loop sort_index laps_dir rs = Inr later"
    and evs: "evs = (case find_lap_file laps_dir (vid_text (strs r ''vehicle_id'')) (py_int l) of
                       None \<Rightarrow> []
                     | Some df \<Rightarrow> lap_events (strs r ''vehicle_id'') (py_int l) (sort_index df)) @ later"
    by (auto simp: Let_def split: option.splits sum.splits)
  from Cons.prems(2) evs consider
    (here) df where "ev \<in> set (lap_events (strs r ''vehicle_id'') (py_int l) (sort_index df))"
    | (there) "ev \<in> set later"
    by (auto split: option.splits)
  then show ?case
  proof cases
    case here
    then show ?thesis by (rule lap_events_range)
  next
    case there
    with Cons.IH[OF later] show ?thesis .
  qed
qed


lemma map_filter_all_Some:
  "\<forall>x \<in> set xs. x \<noteq> None \<Longrightarrow> List.map_filter (\<lambda>x. x) xs = map the xs"
  by (induction xs) (auto split: option.splits)

lemma nanmean_nonneg:
  assumes "xs \<noteq> []" "\<forall>x \<in> set xs. \<exists>v. x = Some v \<and> 0 \<le> v"
  shows "\<exists>t. nanmean xs = Some t \<and> 0 \<le> t"
proof -
  have all: "\<forall>x \<in> set xs. x \<noteq> None" using assms(2) by auto
  have vals: "List.map_filter (\<lambda>x. x) xs = map the xs"
    using map_filter_all_Some[OF all] .
  have "\<forall>v \<in> set (map the xs). 0 \<le> v" using assms(2) by auto
  then have "0 \<le> sum_list (map the xs)" by (intro sum_list_nonneg) auto
  then have "0 \<le> sum_list (map the xs) / real (length (map the xs))" by simp
  then show ?thesis using assms(1) by (simp add: nanmean_def vals)
qed

lemma nanmean_Some_ex:
  assumes "nanmean xs \<noteq> None"
  shows "\<exists>x \<in> set xs. x \<noteq> None"
proof (rule ccontr)
  assume "\<not> (\<exists>x \<in> set xs. x \<noteq> None)"
  then have "List.map_filter (\<lambda>x. x) xs = []"
    by (induction xs) auto
  with assms show False by (simp add: nanmean_def)
qed

lemma rolling_mean3_Some_ex:
  assumes "rolling_mean3 xs \<noteq> None"
  shows "\<exists>x \<in> set (drop (length xs - 3) xs). x \<noteq> None"
  using nanmean_Some_ex[of "drop (length xs - 3) xs"] assms
  by (simp add: rolling_mean3_def)

lemma length_diffs: "length (diffs ys) = length ys"
  by (cases ys) (simp_all add: diffs_def)

lemma mean_positive_delta_nonneg:
  assumes "ys \<noteq> []"
  shows "\<exists>t. mean_positive_delta ys = Some t \<and> 0 \<le> t"
proof -
  define ds where "ds = map (clip0 \<circ> fillna0) (diffs ys)"
  have elem: "\<forall>d \<in> set ds. \<exists>v. d = Some v \<and> 0 \<le> v"
    by (auto simp: ds_def clip0_def fillna0_def split: option.splits)
  have len: "length ds = length ys" by (simp add: ds_def length_diffs)
  have "0 < length ds" using assms len by simp
  then have "length ds - 3 < length ds" by arith
  then have ne: "drop (length ds - 3) ds \<noteq> []" by simp
  have "\<forall>d \<in> set (drop (length ds - 3) ds). \<exists>v. d = Some v \<and> 0 \<le> v"
    using elem by (meson in_set_dropD)
  from nanmean_nonneg[OF ne this] show ?thesis
    by (simp add: mean_positive_delta_def Let_def ds_def)
qed

lemma max_half_Some: "max_half (Some v) = Some (if 0.5 < v then v else 0.5)"
  by (simp add: max_half_def fgt_Some)

lemma pace_collapse_event:
  assumes "pace_collapse cols earlier r = Inr evs" "ev \<in> set evs"
  shows "event_type ev = ''pace_collapse''
       \<and> ev_vehicle_id ev = strs r ''vehicle_id''
       \<and> (\<exists>l. floats r ''lap'' = Some l \<and> ev_lap ev = py_int l)
       \<and> (\<exists>p \<in> set (drop (length earlier - 3) earlier). floats p ''lap_time_seconds'' \<noteq> None)
       \<and> within_ranges ev"
proof -
  define rm where "rm = rolling_mean3 (map (\<lambda>p. floats p ''lap_time_seconds'') earlier)"
  from assms obtain l ts t where
    l: "floats r ''lap'' = Some l"
    and cond: "notna rm" "fless (fmul 1.015 rm) (floats r ''lap_time_seconds'')"
    and ev: "ev = \<lparr>event_id = Lap_ident (vid_text (strs r ''vehicle_id'')) (py_int l) t,
                                 ev_vehicle_id = strs r ''vehicle_id'',
                                 ev_lap = py_int l,
                                 ev_timestamp = t,
                                 event_type = ''pace_collapse'',
                                 severity_score = Some 0.7,
                                 time_loss_estimate =
                                   max_half (fdiv (fsub (floats r ''lap_time_seconds'') rm) 1),
                                 steering_correction_deg = None,
                                 brake_spike = False,
                                 speed_loss = None,
                                 latG_spike = None,
                                 rpm_drop = None\<rparr>"
    unfolding pace_collapse_def Let_def rm_def
    by (auto split: option.splits sum.splits if_splits)
  from cond obtain m lt where m: "rm = Some m" and lt: "floats r ''lap_time_seconds'' = Some lt"
    by (auto simp: fless_def fmul_def split: option.splits)
  have "rolling_mean3 (map (\<lambda>p. floats p ''lap_time_seconds'') earlier) \<noteq> None"
    using m by (simp add: rm_def)
  from rolling_mean3_Some_ex[OF this]
  have hist: "\<exists>p \<in> set (drop (length earlier - 3) earlier). floats p ''lap_time_seconds'' \<noteq> None"
    by (auto simp: drop_map)
  have tl: "time_loss_estimate ev = Some (if 0.5 < lt - m then lt - m else 0.5)"
    by (simp add: ev m lt fsub_def fdiv_def max_half_Some)
  have sev: "severity_score ev = Some 0.7" by (simp add: ev)
  have "within_ranges ev"
    by (rule within_rangesI[OF sev _ _ tl]) simp_all
  with hist l show ?thesis by (simp add: ev)
qed

lemma pace_loop_event:
  assumes "pace_loop cols seen rs = Inr evs" "ev \<in> set evs"
  shows "\<exists>i < length rs. \<exists>evs_i.
           pace_collapse cols (laps_before (seen @ take i rs) (rs ! i)) (rs ! i) = Inr evs_i
           \<and> ev \<in> set evs_i"
  using assms
proof (induction rs arbitrary: seen evs)
  case Nil
  then show ?case by simp
next
  case (Cons r rs)
  from Cons.prems(1) obtain here later where
    here: "pace_collapse cols (laps_before seen r) r = Inr here"
    and later: "pace_loop cols (seen @ [r]) rs = Inr later"
    and evs: "evs = here @ later"
    by (auto split: sum.splits)
  from Cons.prems(2) evs consider "ev \<in> set here" | "ev \<in> set later" by auto
  then show ?case
  proof cases
    case 1
    with here have "pace_collapse cols (laps_before (seen @ take 0 (r # rs)) ((r # rs) ! 0)) ((r # rs) ! 0)
                      = Inr here \<and> ev \<in> set here"
      by simp
    then show ?thesis by (metis length_greater_0_conv list.distinct(1))
  next
    case 2
    from Cons.IH[OF later 2] obtain i evs_i where
      i: "i < length rs"
         "pace_collapse cols (laps_before ((seen @ [r]) @ take i rs) (rs ! i)) (rs ! i) = Inr evs_i"
         "ev \<in> set evs_i"
      by blast
    then have "Suc i < length (r # rs)
        \<and> pace_collapse cols (laps_before (seen @ take (Suc i) (r # rs)) ((r # rs) ! Suc i)) ((r # rs) ! Suc i)
            = Inr evs_i \<and> ev \<in> set evs_i"
      by simp
    then show ?thesis by blast
  qed
qed

lemma degradation_event:
  assumes "degradation polyfit cols vid g = Inr evs" "ev \<in> set evs"
  shows "event_type ev = ''degradation_phase'' \<and> within_ranges ev"
proof -
  define y where "y = map (\<lambda>r. floats r ''lap_time_seconds'') g"
  define slope where "slope = polyfit (map (\<lambda>r. floats r ''lap'') g) y"
  from assms have len: "\<not> length g < 3" and cond: "fgt slope 0.1"
    and ty: "event_type ev = ''degradation_phase''"
    and sev: "severity_score ev = min1 (fdiv slope 0.5)"
    and tl: "time_loss_estimate ev = mean_positive_delta y"
    unfolding degradation_def Let_def slope_def y_def
    by (auto split: if_splits sum.splits option.splits)
  from cond obtain sl where sl: "slope = Some sl" "0.1 < sl" by (auto simp: fgt_Some)
  have sev': "severity_score ev = Some (min 1 (sl / 0.5))"
    using sev sl by (simp add: fdiv_def min1_Some)
  have lo: "0 \<le> min 1 (sl / 0.5)" using sl(2) by simp
  have hi: "min 1 (sl / 0.5) \<le> 1" by simp
  have "y \<noteq> []" using len by (auto simp: y_def)
  from mean_positive_delta_nonneg[OF this] obtain t where
    t: "mean_positive_delta y = Some t" "0 \<le> t" by blast
  have tl': "time_loss_estimate ev = Some t" by (simp add: tl t)
  have "within_ranges ev"
    by (rule within_rangesI[OF sev' lo hi tl' t(2)])
  with ty show ?thesis by simp
qed

lemma degradation_loop_event:
  assumes "degradation_loop polyfit cols per_lap vids = Inr evs" "ev \<in> set evs"
  shows "event_type ev = ''degradation_phase'' \<and> within_ranges ev"
  using assms
proof (induction vids arbitrary: evs)
  case Nil
  then show ?case by simp
next
  case (Cons vid vids)
  from Cons.prems(1) obtain here later where
    here: "degradation polyfit cols vid (filter (\<lambda>r. strs r ''vehicle_id'' = Some vid) per_lap) = Inr here"
    and later: "degradation_loop polyfit cols per_lap vids = Inr later"
    and evs: "evs = here @ later"
    by (auto split: sum.splits)
  from Cons.prems(2) evs consider "ev \<in> set here" | "ev \<in> set later" by auto
  then show ?case
  proof cases
    case 1
    with here show ?thesis by (rule degradation_event)
  next
    case 2
    with Cons.IH[OF later] show ?thesis .
  qed
qed

lemma detect_lap_level_result:
  assumes "detect_lap_level_events polyfit per_lap = Inr evs"
  obtains events later where
    "pace_loop (columns per_lap) [] (sort_laps (rows per_lap)) = Inr events"
    "degradation_loop polyfit (columns per_lap) (sort_laps (rows per_lap))
       (group_keys ''vehicle_id'' \<lparr>columns = columns per_lap, rows = sort_laps (rows per_lap)\<rparr>)
       = Inr later"
    "evs = events @ later"
  using assms unfolding detect_lap_level_events_def Let_def
  by (auto split: if_splits sum.splits)


text \<open>
  Claim C4, amended. A pace collapse is recorded for a lap only when the vehicle has at
  least 1 lap before it, in the table sorted by vehicle and lap, and one of the last three
  of the laps before it (of all of them when they are fewer) has a lap time; with no lap
  before, or none of these with a lap time, no pace collapse is recorded for the lap.
\<close>

theorem pace_collapse_needs_prior_lap:
  assumes "detect_lap_level_events polyfit per_lap = Inr evs"
      and "ev \<in> set evs" and "event_type ev = ''pace_collapse''"
  shows "\<exists>i < length (sort_laps (rows per_lap)). \<exists>l.
           floats (sort_laps (rows per_lap) ! i) ''lap'' = Some l \<and> ev_lap ev = py_int l
         \<and> ev_vehicle_id ev = strs (sort_laps (rows per_lap) ! i) ''vehicle_id''
         \<and> 1 \<le> length (laps_before (take i (sort_laps (rows per_lap))) (sort_laps (rows per_lap) ! i))
         \<and> (\<exists>p \<in> set (drop
                 (length (laps_before (take i (sort_laps (rows per_lap))) (sort_laps (rows per_lap) ! i)) - 3)
                 (laps_before (take i (sort_laps (rows per_lap))) (sort_laps (rows per_lap) ! i))).
               floats p ''lap_time_seconds'' \<noteq> None)"
proof -
  define rs where "rs = sort_laps (rows per_lap)"
  from assms(1) obtain events later where
    pace: "pace_loop (columns per_lap) [] rs = Inr events"
    and deg: "degradation_loop polyfit (columns per_lap) rs
       (group_keys ''vehicle_id'' \<lparr>columns = columns per_lap, rows = rs\<rparr>) = Inr later"
    and evs: "evs = events @ later"
    unfolding rs_def by (rule detect_lap_level_result)
  have "ev \<notin> set later"
    using degradation_loop_event[OF deg] assms(3) by auto
  with assms(2) evs have "ev \<in> set events" by simp
  from pace_loop_event[OF pace this] obtain i evs_i where
    i: "i < length rs"
       "pace_collapse (columns per_lap) (laps_before ([] @ take i rs) (rs ! i)) (rs ! i) = Inr evs_i"
       "ev \<in> set evs_i"
    by blast
  from pace_collapse_event[OF i(2,3)] obtain l p where
    "floats (rs ! i) ''lap'' = Some l" "ev_lap ev = py_int l"
    "ev_vehicle_id ev = strs (rs ! i) ''vehicle_id''"
    "p \<in> set (drop (length (laps_before (take i rs) (rs ! i)) - 3) (laps_before (take i rs) (rs ! i)))"
    "floats p ''lap_time_seconds'' \<noteq> None"
    by auto
  moreover from this(4) have "1 \<le> length (laps_before (take i rs) (rs ! i))"
    by (cases "laps_before (take i rs) (rs ! i)") auto
  ultimately show ?thesis using i(1) unfolding rs_def by blast
qed

text \<open>
  Claim C5. Every event that the lap-level pass or the sample-level pass returns has a
  severity from 0 to 1 and a time loss of at least 0, neither of them NaN.
\<close>

theorem events_within_ranges:
  "(detect_lap_level_events polyfit per_lap = Inr evs \<longrightarrow> (\<forall>ev \<in> set evs. within_ranges ev))
   \<and> (detect_telemetry_events sort_index laps_dir per_lap = Inr evs' \<longrightarrow>
        (\<forall>ev \<in> set evs'. within_ranges ev))"
proof (intro conjI impI ballI)
  fix ev
  assume run: "detect_lap_level_events polyfit per_lap = Inr evs" and ev: "ev \<in> set evs"
  from run obtain events later where
    pace: "pace_loop (columns per_lap) [] (sort_laps (rows per_lap)) = Inr events"
    and deg: "degradation_loop polyfit (columns per_lap) (sort_laps (rows per_lap))
       (group_keys ''vehicle_id'' \<lparr>columns = columns per_lap, rows = sort_laps (rows per_lap)\<rparr>)
       = Inr later"
    and evs: "evs = events @ later"
    by (rule detect_lap_level_result)
  from ev evs consider "ev \<in> set events" | "ev \<in> set later" by auto
  then show "within_ranges ev"
  proof cases
    case 1
    from pace_loop_event[OF pace 1] obtain i evs_i where
      "pace_collapse (columns per_lap)
         (laps_before ([] @ take i (sort_laps (rows per_lap))) (sort_laps (rows per_lap) ! i))
         (sort_laps (rows per_lap) ! i) = Inr evs_i" "ev \<in> set evs_i"
      by blast
    from pace_collapse_event[OF this] show ?thesis by blast
  next
    case 2
    from degradation_loop_event[OF deg 2] show ?thesis by blast
  qed
next
  fix ev
  assume run: "detect_telemetry_events sort_index laps_dir per_lap = Inr evs'" and ev: "ev \<in> set evs'"
  show "within_ranges ev"
  proof (cases "rows per_lap = []")
    case True
    with run ev show ?thesis by (simp add: detect_telemetry_events_def)
  next
    case False
    with run have "telemetry_loop sort_index laps_dir (rows per_lap) = Inr evs'"
      by (auto simp: detect_telemetry_events_def split: if_splits)
    from telemetry_loop_range[OF this ev] show ?thesis .
  qed
qed


theorem lockup_rule_witness:
  "\<exists>evs. detect_telemetry_events (sort_key timestamp) lap_directory laps_of_B = Inr evs
     \<and> lap_record ''B'' (Some 2) (Some 90) (Some 1.5) (Some 1.2) (Some 100) \<in> set (rows laps_of_B)
     \<and> find_lap_file lap_directory ''B'' 2 = Some lap_with_falling_latG
     \<and> sort_key timestamp lap_with_falling_latG = lap_with_falling_latG
     \<and> 3 \<le> (3::nat) \<and> 3 < length lap_with_falling_latG
     \<and> length (filter (\<lambda>s. timestamp s = timestamp (lap_with_falling_latG ! 3))
                  lap_with_falling_latG) = 1
     \<and> fgt (brake_rise lap_with_falling_latG 3) 10
     \<and> fgt (speed_drop lap_with_falling_latG 3) 6
     \<and> fgt (latG_drop lap_with_falling_latG 3) 0.3
     \<and> (\<exists>e \<in> set evs. event_type e = ''lockup'' \<and> ev_vehicle_id e = Some ''B'' \<and> ev_lap e = 2
           \<and> ev_timestamp e = timestamp (lap_with_falling_latG ! 3)
           \<and> severity_score e = Some (31 / 60) \<and> time_loss_estimate e = Some (10 / 9))"
proof -
  define r where "r = lap_record ''B'' (Some 2) (Some 90) (Some 1.5) (Some 1.2) (Some 100)"
  define evs where "evs = [\<lparr>event_id = Lap_ident ''B'' 2 3, ev_vehicle_id = Some ''B'',
              ev_lap = 2, ev_timestamp = 3, event_type = ''lockup'',
              severity_score = Some (31 / 60), time_loss_estimate = Some (10 / 9),
              steering_correction_deg = Some 0, brake_spike = True,
              speed_loss = Some 10, latG_spike = Some 0.5, rpm_drop = None\<rparr>]"
  have run: "detect_telemetry_events (sort_key timestamp) lap_directory laps_of_B = Inr evs"
    unfolding evs_def by code_simp
  have mem: "r \<in> set (rows laps_of_B)" by (simp add: r_def laps_of_B_def)
  have lap: "floats r ''lap'' = Some 2" by (simp add: r_def lap_record_def)
  have vid: "strs r ''vehicle_id'' = Some ''B''" by (simp add: r_def lap_record_def)
  have int: "py_int 2 = 2" by (simp add: py_int_def)
  have found: "find_lap_file lap_directory ''B'' 2 = Some lap_with_falling_latG"
    by (simp add: find_lap_file_def lap_directory_def)
  have found': "find_lap_file lap_directory (vid_text (strs r ''vehicle_id'')) (py_int 2)
                  = Some lap_with_falling_latG"
    by (simp add: vid vid_text_def int found)
  have df: "lap_with_falling_latG = sort_key timestamp lap_with_falling_latG"
    by code_simp
  have h1: "3 \<le> (3::nat)" by simp
  have h2: "3 < length lap_with_falling_latG" by (simp add: lap_with_falling_latG_def)
  have h3: "length (filter (\<lambda>s. timestamp s = timestamp (lap_with_falling_latG ! 3))
               lap_with_falling_latG) = 1"
    by code_simp
  have b: "brake_rise lap_with_falling_latG 3 = Some 15"
    and v: "speed_drop lap_with_falling_latG 3 = Some 10"
    and g: "latG_drop lap_with_falling_latG 3 = Some 0.5"
    by code_simp+
  have cond: "fgt (brake_rise lap_with_falling_latG 3) 10" "fgt (speed_drop lap_with_falling_latG 3) 6"
      "fgt (latG_drop lap_with_falling_latG 3) 0.3"
    unfolding b v g by (simp_all add: fgt_def fless_def)
  note rule = lockup_rule[OF run mem lap found' df h1 h2 h3, unfolded vid int]
  from rule cond obtain e where
    e: "e \<in> set evs" "event_type e = ''lockup''" "ev_vehicle_id e = Some ''B''" "ev_lap e = 2"
       "ev_timestamp e = timestamp (lap_with_falling_latG ! 3)"
    by blast
  with rule have "\<exists>b v g. brake_rise lap_with_falling_latG 3 = Some b
                     \<and> speed_drop lap_with_falling_latG 3 = Some v
                     \<and> latG_drop lap_with_falling_latG 3 = Some g
                     \<and> severity_score e = Some (min 1 ((b / 50 + v / 10 + g / 2) / 3))
                     \<and> time_loss_estimate e = Some (v / 9)"
    by blast
  then have "severity_score e = Some (31 / 60)" "time_loss_estimate e = Some (10 / 9)"
    unfolding b v g by auto
  with e have "\<exists>e \<in> set evs. event_type e = ''lockup'' \<and> ev_vehicle_id e = Some ''B'' \<and> ev_lap e = 2
           \<and> ev_timestamp e = timestamp (lap_with_falling_latG ! 3)
           \<and> severity_score e = Some (31 / 60) \<and> time_loss_estimate e = Some (10 / 9)"
    by blast
  with run mem found df[symmetric] h1 h2 h3 cond show ?thesis
    unfolding r_def by - (rule exI[of _ evs], (intro conjI; assumption))
qed

text \<open>
  The claim as stated fails: with a brake rise of 15, a speed drop of 10 and a lateral G that
  rose by 0.5 at the fourth sample of the lap, the detector returns no event.
\<close>

theorem lockup_not_on_rising_latG:
  "find_lap_file rising_lap_directory ''B'' 2 = Some lap_with_rising_latG
   \<and> sort_key timestamp lap_with_rising_latG = lap_with_rising_latG
   \<and> fgt (brake_rise lap_with_rising_latG 3) 10
   \<and> fgt (speed_drop lap_with_rising_latG 3) 6
   \<and> fgt (latG_rise lap_with_rising_latG 3) 0.3
   \<and> detect_telemetry_events (sort_key timestamp) rising_lap_directory laps_of_B = Inr []"
  by code_simp

text \<open>
  The claim as stated fails: a vehicle with two laps gets a pace collapse on its second lap,
  with one lap of history.
\<close>

theorem pace_collapse_after_one_lap:
  "length (rows two_laps) = 2
   \<and> detect_lap_level_events lstsq_slope two_laps
       = Inr [\<lparr>event_id = Lap_ident ''A'' 2 195, ev_vehicle_id = Some ''A'',
                ev_lap = 2, ev_timestamp = 195, event_type = ''pace_collapse'',
                severity_score = Some 0.7, time_loss_estimate = Some 5,
                steering_correction_deg = None, brake_spike = False,
                speed_loss = None, latG_spike = None, rpm_drop = None\<rparr>]"
  by code_simp

theorem pace_collapse_needs_prior_lap_witness:
  "\<exists>ev. detect_lap_level_events lstsq_slope two_laps = Inr [ev]
       \<and> ev \<in> set [ev] \<and> event_type ev = ''pace_collapse''
       \<and> (\<exists>i < length (sort_laps (rows two_laps)). \<exists>l.
           floats (sort_laps (rows two_laps) ! i) ''lap'' = Some l \<and> ev_lap ev = py_int l
         \<and> ev_vehicle_id ev = strs (sort_laps (rows two_laps) ! i) ''vehicle_id''
         \<and> 1 \<le> length (laps_before (take i (sort_laps (rows two_laps))) (sort_laps (rows two_laps) ! i))
         \<and> (\<exists>p \<in> set (drop
                 (length (laps_before (take i (sort_laps (rows two_laps))) (sort_laps (rows two_laps) ! i)) - 3)
                 (laps_before (take i (sort_laps (rows two_laps))) (sort_laps (rows two_laps) ! i))).
               floats p ''lap_time_seconds'' \<noteq> None))"
proof -
  define ev where "ev = \<lparr>event_id = Lap_ident ''A'' 2 195, ev_vehicle_id = Some ''A'',
                ev_lap = 2, ev_timestamp = 195, event_type = ''pace_collapse'',
                severity_score = Some 0.7, time_loss_estimate = Some 5,
                steering_correction_deg = None, brake_spike = False,
                speed_loss = None, latG_spike = None, rpm_drop = None\<rparr>"
  have run: "detect_lap_level_events lstsq_slope two_laps = Inr [ev]"
    unfolding ev_def by code_simp
  have mem: "ev \<in> set [ev]" by simp
  have ty: "event_type ev = ''pace_collapse''" by (simp add: ev_def)
  from pace_collapse_needs_prior_lap[OF run mem ty] run mem ty show ?thesis by blast
qed

theorem events_within_ranges_witness:
  "\<exists>e1 e2 e3.
     detect_lap_level_events lstsq_slope scenario1_laps = Inr [e1, e2]
     \<and> detect_telemetry_events (sort_key timestamp) lap_directory laps_of_B = Inr [e3]
     \<and> (\<forall>ev \<in> set [e1, e2]. within_ranges ev) \<and> (\<forall>ev \<in> set [e3]. within_ranges ev)
     \<and> map event_type [e1, e2, e3] = [''pace_collapse'', ''degradation_phase'', ''lockup'']
     \<and> map severity_score [e1, e2, e3] = [Some 0.7, Some 1, Some (31 / 60)]
     \<and> map time_loss_estimate [e1, e2, e3] = [Some 4.5, Some (11 / 6), Some (10 / 9)]"
proof -
  define e1 where "e1 = \<lparr>event_id = Lap_ident ''A'' 4 400, ev_vehicle_id = Some ''A'',
         ev_lap = 4, ev_timestamp = 400, event_type = ''pace_collapse'',
         severity_score = Some 0.7, time_loss_estimate = Some 4.5,
         steering_correction_deg = None, brake_spike = False,
         speed_loss = None, latG_spike = None, rpm_drop = None\<rparr>"
  define e2 where "e2 = \<lparr>event_id = Degradation_ident ''A'' 4 400, ev_vehicle_id = Some ''A'',
         ev_lap = 4, ev_timestamp = 400, event_type = ''degradation_phase'',
         severity_score = Some 1, time_loss_estimate = Some (11 / 6),
         steering_correction_deg = None, brake_spike = False,
         speed_loss = None, latG_spike = None, rpm_drop = None\<rparr>"
  define e3 where "e3 = \<lparr>event_id = Lap_ident ''B'' 2 3, ev_vehicle_id = Some ''B'',
         ev_lap = 2, ev_timestamp = 3, event_type = ''lockup'',
         severity_score = Some (31 / 60), time_loss_estimate = Some (10 / 9),
         steering_correction_deg = Some 0, brake_spike = True,
         speed_loss = Some 10, latG_spike = Some 0.5, rpm_drop = None\<rparr>"
  have run1: "detect_lap_level_events lstsq_slope scenario1_laps = Inr [e1, e2]"
    unfolding e1_def e2_def by code_simp
  have run2: "detect_telemetry_events (sort_key timestamp) lap_directory laps_of_B = Inr [e3]"
    unfolding e3_def by code_simp
  have vals: "map event_type [e1, e2, e3] = [''pace_collapse'', ''degradation_phase'', ''lockup'']"
     "map severity_score [e1, e2, e3] = [Some 0.7, Some 1, Some (31 / 60)]"
     "map time_loss_estimate [e1, e2, e3] = [Some 4.5, Some (11 / 6), Some (10 / 9)]"
    by (simp_all add: e1_def e2_def e3_def)
  from events_within_ranges[of lstsq_slope scenario1_laps "[e1, e2]"] run1
  have "\<forall>ev \<in> set [e1, e2]. within_ranges ev" by blast
  moreover from events_within_ranges[of _ laps_of_B _ "sort_key timestamp" lap_directory "[e3]"] run2
  have "\<forall>ev \<in> set [e3]. within_ranges ev" by blast
  ultimately show ?thesis
    using run1 run2 vals
    by - (rule exI[of _ e1], rule exI[of _ e2], rule exI[of _ e3], (intro conjI; assumption))
qed

text \<open>
  Claim C7 fails on the code. A lap record whose lap number is NaN makes \<open>int(row['lap'])\<close>
  raise \<open>ValueError\<close> in both passes, and a lap table without the \<open>peak_lat_G\<close> column makes
  line 15 raise \<open>KeyError\<close>, where the sample-level pass fills a missing channel with NaN.
\<close>

theorem lap_detector_raises:
  "detect_lap_level_events lstsq_slope lap_without_number = Inl ValueError
   \<and> detect_lap_level_events lstsq_slope laps_without_peak_lat_G = Inl KeyError
   \<and> detect_telemetry_events (sort_key timestamp) lap_directory lap_without_number = Inl ValueError"
  by code_simp

end
